theory Spec2Isabelle
  imports Main
begin

section \<open>Strings and regular expressions\<close>

text \<open>
  A JavaScript string is a sequence of UTF-16 code units. It is modelled as a HOL
  \<open>string\<close>, whose characters are the code units 0..255; on these,
  \<open>toLowerCase\<close> maps A-Z and the Latin-1 capitals (192..222 except 215) to their
  small letters, \<open>\s\<close> and \<open>trim\<close> know the code units 9..13, 32 and 160, and
  \<open>\w\<close> is \<open>[A-Za-z0-9_]\<close>. Code units above 255 are outside the model.
\<close>

text \<open>
  The tests on single code units are written on the bits of \<open>Char b0 ... b7\<close>
  (\<open>b0\<close> the lowest), so that they evaluate by rewriting; the lemmas
  \<open>isUpperChar_code_unit\<close> to \<open>isLineTerminator_code_unit\<close> below state each of
  them on the number of the code unit.
\<close>

fun isUpperChar :: "char \<Rightarrow> bool" where
  "isUpperChar (Char b0 b1 b2 b3 b4 b5 b6 b7) =
     (b6 \<and> \<not> b5 \<and>
      (if b7 then \<not> (b4 \<and> b3 \<and> b2 \<and> b1 \<and> b0) \<and> \<not> (b4 \<and> \<not> b3 \<and> b2 \<and> b1 \<and> b0)
       else (b4 \<or> b3 \<or> b2 \<or> b1 \<or> b0) \<and> \<not> (b4 \<and> b3 \<and> (b2 \<or> (b1 \<and> b0)))))"

fun toLowerChar :: "char \<Rightarrow> char" where
  "toLowerChar (Char b0 b1 b2 b3 b4 b5 b6 b7) =
     (if isUpperChar (Char b0 b1 b2 b3 b4 b5 b6 b7) then Char b0 b1 b2 b3 b4 True b6 b7
      else Char b0 b1 b2 b3 b4 b5 b6 b7)"

definition toLowerCase :: "string \<Rightarrow> string" where
  "toLowerCase s = map toLowerChar s"

fun isSpace :: "char \<Rightarrow> bool" where
  "isSpace (Char b0 b1 b2 b3 b4 b5 b6 b7) =
     (\<not> b6 \<and> \<not> b4 \<and>
      (if b5 then \<not> b3 \<and> \<not> b2 \<and> \<not> b1 \<and> \<not> b0
       else \<not> b7 \<and> b3 \<and> (if b2 then \<not> b1 else b1 \<or> b0)))"

fun isDigit :: "char \<Rightarrow> bool" where
  "isDigit (Char b0 b1 b2 b3 b4 b5 b6 b7) =
     (\<not> b7 \<and> \<not> b6 \<and> b5 \<and> b4 \<and> \<not> (b3 \<and> (b2 \<or> b1)))"

fun isWord :: "char \<Rightarrow> bool" where
  "isWord (Char b0 b1 b2 b3 b4 b5 b6 b7) =
     (\<not> b7 \<and>
      (if b6 then ((b4 \<or> b3 \<or> b2 \<or> b1 \<or> b0) \<and> \<not> (b4 \<and> b3 \<and> (b2 \<or> (b1 \<and> b0))))
                  \<or> (\<not> b5 \<and> b4 \<and> b3 \<and> b2 \<and> b1 \<and> b0)
       else b5 \<and> b4 \<and> \<not> (b3 \<and> (b2 \<or> b1))))"

fun isLineTerminator :: "char \<Rightarrow> bool" where
  "isLineTerminator (Char b0 b1 b2 b3 b4 b5 b6 b7) =
     (\<not> b7 \<and> \<not> b6 \<and> \<not> b5 \<and> \<not> b4 \<and> b3 \<and> (if b2 then \<not> b1 \<and> b0 else b1 \<and> \<not> b0))"

definition trim :: "string \<Rightarrow> string" where
  "trim s = rev (dropWhile isSpace (rev (dropWhile isSpace s)))"

fun startsWith :: "string \<Rightarrow> string \<Rightarrow> bool" where
  "startsWith s [] = True"
| "startsWith [] (p # ps) = False"
| "startsWith (c # cs) (p # ps) = (if c = p then startsWith cs ps else False)"

text \<open>The same under the \<open>i\<close> flag.\<close>

fun startsWithI :: "string \<Rightarrow> string \<Rightarrow> bool" where
  "startsWithI s [] = True"
| "startsWithI [] (p # ps) = False"
| "startsWithI (c # cs) (p # ps) =
     (if toLowerChar c = toLowerChar p then startsWithI cs ps else False)"

text \<open>\<open>s.includes(p)\<close>: \<open>p\<close> occurs in \<open>s\<close> as a contiguous substring.\<close>

fun includesStr :: "string \<Rightarrow> string \<Rightarrow> bool" where
  "includesStr [] p = (p = [])"
| "includesStr (c # cs) p = (if startsWith (c # cs) p then True else includesStr cs p)"


text \<open>
  \<open>s.split(',')\<close> with a one-character separator: the pieces between the
  separators, \<open>['''']\<close> for the empty string.
\<close>

fun splitOn :: "char \<Rightarrow> string \<Rightarrow> string list" where
  "splitOn sep [] = [[]]"
| "splitOn sep (c # cs) =
     (case splitOn sep cs of
        [] \<Rightarrow> [[c]]
      | p # ps \<Rightarrow> if c = sep then [] # p # ps else (c # p) # ps)"

text \<open>
  The regular expressions of the sources, as data. Every literal of the sources'
  patterns stands under the \<open>i\<close> flag, so \<open>LitI\<close> compares case-insensitively.
  Quantifiers range over character classes only, as they do in the sources:
  \<open>Many\<close> is a greedy \<open>*\<close>, \<open>Many1\<close> a greedy \<open>+\<close>, \<open>Few\<close> the lazy \<open>*?\<close>.
  \<open>Eos\<close> is \<open>$\<close> (no pattern has the \<open>m\<close> flag).
\<close>

datatype rx =
    Chr "char \<Rightarrow> bool"
  | LitI string
  | Cat rx rx
  | Alt rx rx
  | Opt rx
  | Many "char \<Rightarrow> bool"
  | Many1 "char \<Rightarrow> bool"
  | Few "char \<Rightarrow> bool"
  | Eos

fun greedy :: "(char \<Rightarrow> bool) \<Rightarrow> string \<Rightarrow> string list" where
  "greedy p [] = [[]]"
| "greedy p (c # cs) = (if p c then greedy p cs @ [c # cs] else [c # cs])"

fun lazy :: "(char \<Rightarrow> bool) \<Rightarrow> string \<Rightarrow> string list" where
  "lazy p [] = [[]]"
| "lazy p (c # cs) = (c # cs) # (if p c then lazy p cs else [])"

text \<open>
  \<open>rxm r s\<close> lists what is left of \<open>s\<close> after each way \<open>r\<close> can match at its
  start, in the order a backtracking matcher tries them; the head is the match
  JavaScript takes.
\<close>

fun rxm :: "rx \<Rightarrow> string \<Rightarrow> string list" where
  "rxm (Chr p) s = (case s of [] \<Rightarrow> [] | c # cs \<Rightarrow> if p c then [cs] else [])"
| "rxm (LitI l) s =
     (if startsWithI s l then [drop (length l) s] else [])"
| "rxm (Cat a b) s = concat (map (rxm b) (rxm a s))"
| "rxm (Alt a b) s = rxm a s @ rxm b s"
| "rxm (Opt a) s = rxm a s @ [s]"
| "rxm (Many p) s = greedy p s"
| "rxm (Many1 p) s = (case s of [] \<Rightarrow> [] | c # cs \<Rightarrow> if p c then greedy p cs else [])"
| "rxm (Few p) s = lazy p s"
| "rxm Eos s = (if s = [] then [[]] else [])"

text \<open>
  \<open>s.replace(/r/g, rep)\<close>: the matches are found left to right, each search
  starting where the last match ended; an empty match is replaced too and the
  search moves on by one character.
\<close>

fun replaceAll :: "rx \<Rightarrow> string \<Rightarrow> string \<Rightarrow> string" where
  "replaceAll r rep s =
     (case rxm r s of
        t # _ \<Rightarrow>
          if length t < length s then rep @ replaceAll r rep t
          else rep @ (case s of [] \<Rightarrow> [] | c # cs \<Rightarrow> c # replaceAll r rep cs)
      | [] \<Rightarrow> (case s of [] \<Rightarrow> [] | c # cs \<Rightarrow> c # replaceAll r rep cs))"

declare replaceAll.simps [simp del]

text \<open>\<open>s.replace(/r/, '''')\<close> without the \<open>g\<close> flag: only the first match goes.\<close>

fun replaceFirst :: "rx \<Rightarrow> string \<Rightarrow> string" where
  "replaceFirst r [] = (case rxm r [] of t # _ \<Rightarrow> t | [] \<Rightarrow> [])"
| "replaceFirst r (c # cs) =
     (case rxm r (c # cs) of t # _ \<Rightarrow> t | [] \<Rightarrow> c # replaceFirst r cs)"

text \<open>\<open>/r/.test(s)\<close>.\<close>

fun rxTest :: "rx \<Rightarrow> string \<Rightarrow> bool" where
  "rxTest r [] = (rxm r [] \<noteq> [])"
| "rxTest r (c # cs) = (if rxm r (c # cs) \<noteq> [] then True else rxTest r cs)"

fun cats :: "rx list \<Rightarrow> rx" where
  "cats [] = Opt Eos"
| "cats [r] = r"
| "cats (r # q # rs) = Cat r (cats (q # rs))"

fun alts :: "rx list \<Rightarrow> rx" where
  "alts [] = Chr (\<lambda>c. False)"
| "alts [r] = r"
| "alts (r # q # rs) = Alt r (alts (q # rs))"

definition oneOf :: "string \<Rightarrow> char \<Rightarrow> bool" where
  "oneOf cs c = (c \<in> set cs)"


text \<open>A string or \<open>undefined\<close>, tested as a condition: the empty string is falsy.\<close>

fun truthy :: "string option \<Rightarrow> bool" where
  "truthy None = False"
| "truthy (Some s) = (s \<noteq> [])"

text \<open>\<open>x || ''''\<close> and \<open>x || []\<close>.\<close>

fun orEmpty :: "'a list option \<Rightarrow> 'a list" where
  "orEmpty None = []"
| "orEmpty (Some xs) = xs"

text \<open>The three normalisers of \<open>musicbrainz.ts\<close>.\<close>

definition normalizeForCache :: "string \<Rightarrow> string" where
  "normalizeForCache name =
     trim (replaceAll (Chr (\<lambda>c. \<not> isWord c \<and> \<not> isSpace c)) [] (toLowerCase name))"

definition normalizeForComparison :: "string \<Rightarrow> string" where
  "normalizeForComparison str =
     trim (replaceAll (Many1 isSpace) '' ''
       (replaceAll (Chr (\<lambda>c. \<not> isWord c \<and> \<not> isSpace c)) [] (toLowerCase str)))"

definition normalizeArtistName :: "string \<Rightarrow> string" where
  "normalizeArtistName name =
     trim (replaceAll (Many1 isSpace) '' ''
       (replaceAll (Chr (oneOf ''.-_$'')) [] (toLowerCase name)))"

section \<open>Upstream calls: \<open>fetchDiscogs\<close> and \<open>fetchMB\<close>\<close>

text \<open>
  Both functions issue one HTTP request per invocation (after the rate limiter's
  throttle, whose clock is not modelled). The upstream side is a script of replies,
  one per request, consumed from the front. \<open>fetchDiscogs\<close> calls itself again
  after a 429, so the script is also what bounds the recursion: a script that ends
  before the call has settled gives \<open>None\<close> (the call is still pending).
  \<open>calls\<close> counts the requests issued and \<open>waited\<close> the milliseconds spent in
  \<open>setTimeout(resolve, 60000)\<close>.
\<close>

datatype 'a reply = Reply nat 'a | NetworkFailure

datatype fetch_error = ApiError nat | FetchRejected

record 'a fetch_result =
  outcome :: "fetch_error + 'a"
  calls :: nat
  waited :: nat

definition response_ok :: "nat \<Rightarrow> bool" where
  "response_ok st = (200 \<le> st \<and> st \<le> 299)"

fun fetchDiscogs :: "'a reply list \<Rightarrow> 'a fetch_result option" where
  "fetchDiscogs [] = None"
| "fetchDiscogs (NetworkFailure # rest) =
     Some \<lparr>outcome = Inl FetchRejected, calls = 1, waited = 0\<rparr>"
| "fetchDiscogs (Reply st b # rest) =
     (if response_ok st then Some \<lparr>outcome = Inr b, calls = 1, waited = 0\<rparr>
      else if st = 429 then
        (case fetchDiscogs rest of
           None \<Rightarrow> None
         | Some r \<Rightarrow> Some (r\<lparr>calls := calls r + 1, waited := waited r + 60000\<rparr>))
      else Some \<lparr>outcome = Inl (ApiError st), calls = 1, waited = 0\<rparr>)"

fun fetchMB :: "'a reply list \<Rightarrow> 'a fetch_result option" where
  "fetchMB [] = None"
| "fetchMB (NetworkFailure # rest) =
     Some \<lparr>outcome = Inl FetchRejected, calls = 1, waited = 0\<rparr>"
| "fetchMB (Reply st b # rest) =
     (if response_ok st then Some \<lparr>outcome = Inr b, calls = 1, waited = 0\<rparr>
      else Some \<lparr>outcome = Inl (ApiError st), calls = 1, waited = 0\<rparr>)"

text \<open>What a single reply amounts to once no further request follows it.\<close>

fun settle :: "'a reply \<Rightarrow> fetch_error + 'a" where
  "settle NetworkFailure = Inl FetchRejected"
| "settle (Reply st b) = (if response_ok st then Inr b else Inl (ApiError st))"

fun is_429 :: "'a reply \<Rightarrow> bool" where
  "is_429 (Reply st b) = (st = 429)"
| "is_429 NetworkFailure = False"

text \<open>
  The specification's wording, for comparison: a 429 is retried once after a fixed
  backoff, and whatever the retry gives is final.
\<close>

fun retry_once_spec :: "nat \<Rightarrow> 'a reply list \<Rightarrow> 'a fetch_result option" where
  "retry_once_spec backoff [] = None"
| "retry_once_spec backoff (r # rest) =
     (if is_429 r then
        (case rest of
           [] \<Rightarrow> None
         | r2 # _ \<Rightarrow> Some \<lparr>outcome = settle r2, calls = 2, waited = backoff\<rparr>)
      else Some \<lparr>outcome = settle r, calls = 1, waited = 0\<rparr>)"

section \<open>The graph: entities and relationships\<close>

text \<open>
  \<open>MusicEntity\<close> and \<open>Relationship\<close> of \<open>types/music.ts\<close>, with the fields the
  modelled code reads or compares (\<open>id\<close>, \<open>mbid\<close>, \<open>name\<close>, \<open>type\<close>; \<open>id\<close>,
  \<open>source\<close>, \<open>target\<close>, \<open>role\<close>). The display fields (\<open>image\<close>, \<open>releaseType\<close>,
  \<open>isExpanded\<close>, \<open>isHidden\<close>, \<open>childrenLoaded\<close>, ...) are written but never read
  by it and are left out. A role is the string of its tag, since the relationship
  ids are built from it.
\<close>

datatype EntityType = Artist | Track | Album | Label

record MusicEntity =
  e_id :: string
  e_mbid :: "string option"
  e_name :: string
  e_type :: EntityType

record Relationship =
  r_id :: string
  r_source :: string
  r_target :: string
  r_role :: string

section \<open>Recording matcher: \<open>scoreRecordingMatch\<close> and the choice of the best recording\<close>

text \<open>
  The search results of MusicBrainz, with the fields the matcher reads. An optional
  field of the TypeScript interface is an \<open>option\<close>. Scores are integers
  (MusicBrainz sends 0..100, the adjustments are integers).
\<close>

record MBArtist =
  a_id :: string
  a_name :: string

record ArtistCredit =
  ac_artist :: MBArtist
  ac_joinphrase :: "string option"

record ReleaseGroup =
  rg_id :: string
  rg_primary_type :: "string option"
  rg_secondary_types :: "string list option"

record MBRecordingRelease =
  rl_id :: string
  rl_title :: string
  rl_status :: "string option"
  rl_date :: "string option"
  rl_release_group :: "ReleaseGroup option"

record MBRecordingSearchResult =
  rs_id :: string
  rs_title :: string
  rs_score :: "int option"
  rs_disambiguation :: "string option"
  rs_artist_credit :: "ArtistCredit list option"
  rs_releases :: "MBRecordingRelease list option"

text \<open>\<open>release['release-group']?.['primary-type']\<close> and \<open>?.['secondary-types'] || []\<close>.\<close>

definition primaryType :: "MBRecordingRelease \<Rightarrow> string option" where
  "primaryType release =
     (case rl_release_group release of None \<Rightarrow> None | Some g \<Rightarrow> rg_primary_type g)"

definition secondaryTypes :: "MBRecordingRelease \<Rightarrow> string list" where
  "secondaryTypes release =
     (case rl_release_group release of None \<Rightarrow> [] | Some g \<Rightarrow> orEmpty (rg_secondary_types g))"

definition alternateIndicators :: "string list" where
  "alternateIndicators =
     [''live'', ''remix'', ''acoustic'', ''demo'', ''radio edit'', ''instrumental'',
      ''karaoke'', ''cover'', ''remaster'', ''alternate'', ''edit'', ''mix'',
      ''version'', ''reprise'', ''interlude'', ''skit'']"

text \<open>
  \<open>/[\(\[\-].*?(live|remix|acoustic|demo|radio|instrumental|remaster|edit|mix).*?[\)\]]/i\<close>
\<close>

definition bracketPattern :: rx where
  "bracketPattern =
     cats [Chr (oneOf ''([-''), Few (\<lambda>c. \<not> isLineTerminator c),
           alts (map LitI [''live'', ''remix'', ''acoustic'', ''demo'', ''radio'',
                           ''instrumental'', ''remaster'', ''edit'', ''mix'']),
           Few (\<lambda>c. \<not> isLineTerminator c), Chr (oneOf '')]'')]"

definition isAlternateVersion :: "string \<Rightarrow> string option \<Rightarrow> bool" where
  "isAlternateVersion title disambiguation =
     (let lowerDisamb = toLowerCase (orEmpty disambiguation)
      in if list_ex (\<lambda>indicator. includesStr lowerDisamb indicator) alternateIndicators then True
         else rxTest bracketPattern title)"

definition alternateTypes :: "string list" where
  "alternateTypes = [''Live'', ''Remix'', ''Compilation'', ''DJ-mix'', ''Mixtape/Street'', ''Soundtrack'']"

definition compilationIndicators :: "string list" where
  "compilationIndicators =
     [''greatest hits'', ''best of'', ''collection'', ''anthology'',
      ''soundtrack'', ''ost'', ''motion picture'', ''film'', ''movie'',
      ''various artists'', ''compilation'', ''now that'' @ [CHR 0x27] @ ''s what i call'',
      ''hits'', ''essentials'', ''ultimate'', ''complete'', ''definitive'']"

definition isAlternateRelease :: "MBRecordingRelease \<Rightarrow> bool" where
  "isAlternateRelease release =
     (if list_ex (\<lambda>t. t \<in> set alternateTypes) (secondaryTypes release) then True
      else list_ex (\<lambda>indicator. includesStr (toLowerCase (rl_title release)) indicator)
             compilationIndicators)"

text \<open>
  The body of the loop over \<open>recording.releases\<close> in \<open>scoreRecordingMatch\<close>:
  the score of one release against the normalised album name.
\<close>

definition releaseScore :: "string \<Rightarrow> MBRecordingRelease \<Rightarrow> int" where
  "releaseScore normalizedAlbum release =
     (let normalizedReleaseTitle = normalizeForComparison (rl_title release);
          s1 = (if normalizedReleaseTitle = normalizedAlbum then 80
                else if includesStr normalizedReleaseTitle normalizedAlbum
                        \<or> includesStr normalizedAlbum normalizedReleaseTitle then 40
                else 0);
          s2 = (if rl_status release = Some ''Official'' then s1 + 10 else s1);
          s3 = (if isAlternateRelease release then s2 - 60 else s2)
      in if primaryType release = Some ''Album'' then s3 + 15 else s3)"

definition scoreRecordingMatch ::
  "MBRecordingSearchResult \<Rightarrow> string \<Rightarrow> string \<Rightarrow> string option \<Rightarrow> int" where
  "scoreRecordingMatch recording trackName artistName albumName =
     (let score0 = (case rs_score recording of None \<Rightarrow> 0 | Some n \<Rightarrow> n);
          normalizedTrack = normalizeForComparison trackName;
          normalizedRecordingTitle = normalizeForComparison (rs_title recording);
          normalizedArtist = normalizeForComparison artistName;
          score1 = (if normalizedRecordingTitle = normalizedTrack then score0 + 50 else score0);
          score2 = (if isAlternateVersion (rs_title recording) (rs_disambiguation recording)
                    then score1 - 100 else score1);
          disamb = toLowerCase (orEmpty (rs_disambiguation recording));
          score3 = (if includesStr disamb ''clean'' \<or> includesStr disamb ''edited''
                       \<or> includesStr disamb ''radio edit''
                    then score2 - 50 else score2);
          artistCreditCount = int (length (orEmpty (rs_artist_credit recording)));
          score4 = (if artistCreditCount > 1 then score3 + 25 * (artistCreditCount - 1) else score3);
          recordingArtists = map (\<lambda>c. normalizeForComparison (a_name (ac_artist c)))
                                 (orEmpty (rs_artist_credit recording));
          score5 = (if list_ex (\<lambda>a. a = normalizedArtist \<or> includesStr a normalizedArtist) recordingArtists
                    then score4 + 30 else score4)
      in if truthy albumName then
           (let normalizedAlbum = normalizeForComparison (the albumName);
                releases = orEmpty (rs_releases recording);
                bestReleaseScore = fold (\<lambda>release best. max best (releaseScore normalizedAlbum release))
                                        releases (- 50)
            in score5 + bestReleaseScore)
         else score5)"

text \<open>
  The choice in \<open>buildGraphFromTrack\<close> (strategy 2): no recordings gives the empty
  graph (\<open>None\<close> here); otherwise every recording is scored, the scored list is sorted
  by \<open>(a, b) => b.score - a.score\<close> and its first element is taken.
  \<open>Array.prototype.sort\<close> is stable; on integer scores its result with this
  comparator is the stable sort by descending score, which is \<open>sort_key\<close> on the
  negated score.
\<close>

definition sortByScoreDesc :: "(int \<times> 'a) list \<Rightarrow> (int \<times> 'a) list" where
  "sortByScoreDesc scored = sort_key (\<lambda>sr. - fst sr) scored"

definition selectRecording ::
  "string \<Rightarrow> string \<Rightarrow> string option \<Rightarrow> MBRecordingSearchResult list
     \<Rightarrow> MBRecordingSearchResult option" where
  "selectRecording trackName artistName albumName recordings =
     (if recordings = [] then None
      else Some (snd (hd (sortByScoreDesc
             (map (\<lambda>r. (scoreRecordingMatch r trackName artistName albumName, r)) recordings)))))"

text \<open>
  The specification's wording of the album adjustment, for comparison with
  \<open>releaseScore\<close>: +80 exact title, +40 partial, -60 compilation/live/remix/soundtrack,
  -50 anniversary/deluxe/remaster/special edition, +15 official, +30 Album, +10 EP;
  the maximum over the releases is added, and -100 when no release matches at all.
\<close>

definition spec_impliesEdition :: "string \<Rightarrow> bool" where
  "spec_impliesEdition title =
     list_ex (\<lambda>w. includesStr (toLowerCase title) w)
       [''anniversary'', ''deluxe'', ''remaster'', ''special'']"

definition spec_titleMatches :: "string \<Rightarrow> MBRecordingRelease \<Rightarrow> bool" where
  "spec_titleMatches normalizedAlbum release =
     (let t = normalizeForComparison (rl_title release)
      in t = normalizedAlbum \<or> includesStr t normalizedAlbum \<or> includesStr normalizedAlbum t)"

definition spec_releaseSubScore :: "string \<Rightarrow> MBRecordingRelease \<Rightarrow> int" where
  "spec_releaseSubScore normalizedAlbum release =
     (if normalizeForComparison (rl_title release) = normalizedAlbum then 80
      else if spec_titleMatches normalizedAlbum release then 40 else 0)
     + (if isAlternateRelease release then - 60 else 0)
     + (if spec_impliesEdition (rl_title release) then - 50 else 0)
     + (if rl_status release = Some ''Official'' then 15 else 0)
     + (if primaryType release = Some ''Album'' then 30
        else if primaryType release = Some ''EP'' then 10 else 0)"

definition spec_albumAdjustment :: "string \<Rightarrow> MBRecordingRelease list \<Rightarrow> int" where
  "spec_albumAdjustment normalizedAlbum releases =
     (if list_ex (spec_titleMatches normalizedAlbum) releases
      then fold (\<lambda>release best. max best (spec_releaseSubScore normalizedAlbum release))
                (tl releases) (spec_releaseSubScore normalizedAlbum (hd releases))
      else - 100)"

section \<open>The track cache (\<open>trackCache.ts\<close>)\<close>









definition TTL_MS :: int where
  "TTL_MS = 7 * 24 * 60 * 60 * 1000"

























section \<open>Recording search: \<open>cleanTrackName\<close> and \<open>searchRecording\<close>\<close>











section \<open>Discogs credits: \<open>getTrackCredits\<close> (\<open>discogs.ts\<close>)\<close>

record DiscogsArtist =
  da_id :: nat
  da_name :: string
  da_role :: "string option"
  da_tracks :: "string option"

record DiscogsTrack =
  dt_position :: string
  dt_title :: string
  dt_extraartists :: "DiscogsArtist list option"

record DiscogsRelease =
  dr_id :: nat
  dr_tracklist :: "DiscogsTrack list"
  dr_extraartists :: "DiscogsArtist list option"

record DiscogsCredits =
  dc_entities :: "MusicEntity list"
  dc_relationships :: "Relationship list"

text \<open>A Discogs id is a number; in a template string it is written in decimal.\<close>

fun string_of_nat :: "nat \<Rightarrow> string" where
  "string_of_nat n =
     (if n < 10 then [''0123456789'' ! n]
      else string_of_nat (n div 10) @ [''0123456789'' ! (n mod 10)])"

declare string_of_nat.simps [simp del]

definition mapDiscogsRole :: "string \<Rightarrow> string" where
  "mapDiscogsRole role =
     (let lowerRole = toLowerCase role
      in if includesStr lowerRole ''executive producer'' then ''executive_producer''
         else if includesStr lowerRole ''co-producer'' then ''co_producer''
         else if includesStr lowerRole ''vocal producer'' then ''vocal_producer''
         else if includesStr lowerRole ''additional producer'' then ''additional_producer''
         else if includesStr lowerRole ''producer'' \<or> includesStr lowerRole ''produced by'' then ''producer''
         else if includesStr lowerRole ''written by'' \<or> includesStr lowerRole ''written-by'' then ''songwriter''
         else if includesStr lowerRole ''lyrics by'' \<or> includesStr lowerRole ''lyrics'' then ''songwriter''
         else if includesStr lowerRole ''music by'' \<or> includesStr lowerRole ''composed by'' then ''songwriter''
         else if includesStr lowerRole ''songwriter'' \<or> includesStr lowerRole ''composer'' then ''songwriter''
         else if includesStr lowerRole ''mixed by'' \<or> includesStr lowerRole ''mixing'' then ''engineer''
         else if includesStr lowerRole ''mastered by'' \<or> includesStr lowerRole ''mastering'' then ''engineer''
         else if includesStr lowerRole ''recorded by'' \<or> includesStr lowerRole ''recording'' then ''engineer''
         else if includesStr lowerRole ''engineer'' then ''engineer''
         else if includesStr lowerRole ''vocal'' \<or> includesStr lowerRole ''voice'' then ''vocals''
         else if includesStr lowerRole ''backing vocal'' \<or> includesStr lowerRole ''background vocal'' then ''vocals''
         else if includesStr lowerRole ''featuring'' \<or> includesStr lowerRole ''feat'' then ''featured''
         else if includesStr lowerRole ''guitar'' then ''guitar''
         else if includesStr lowerRole ''bass'' then ''bass''
         else if includesStr lowerRole ''drum'' \<or> includesStr lowerRole ''percussion'' then ''drums''
         else if includesStr lowerRole ''keyboard'' \<or> includesStr lowerRole ''piano''
                 \<or> includesStr lowerRole ''synth'' then ''keyboards''
         else ''featured'')"

text \<open>\<open>name.replace(/\s*\(\d+\)\s*$/, '''').trim()\<close>\<close>

definition cleanArtistName :: "string \<Rightarrow> string" where
  "cleanArtistName name =
     trim (replaceFirst
       (cats [Many isSpace, Chr (oneOf ''(''), Many1 isDigit, Chr (oneOf '')''), Many isSpace, Eos])
       name)"

text \<open>
  The body shared by the two loops of \<open>getTrackCredits\<close>: the artist's entity is
  pushed unless its id was seen, and a relationship is pushed in every case. The state
  is \<open>(entities, relationships, seenArtists)\<close>.
\<close>

definition discogsArtistId :: "DiscogsArtist \<Rightarrow> string" where
  "discogsArtistId artist = ''artist-discogs-'' @ string_of_nat (da_id artist)"

definition creditRole :: "DiscogsArtist \<Rightarrow> string" where
  "creditRole artist =
     mapDiscogsRole (if truthy (da_role artist) then the (da_role artist) else ''performer'')"

definition creditRelationship :: "string \<Rightarrow> DiscogsArtist \<Rightarrow> Relationship" where
  "creditRelationship trackId artist =
     \<lparr>r_id = ''rel-discogs-'' @ trackId @ ''-'' @ discogsArtistId artist @ ''-'' @ creditRole artist,
      r_source = trackId, r_target = discogsArtistId artist, r_role = creditRole artist\<rparr>"

definition pushCredit ::
  "string \<Rightarrow> DiscogsArtist \<Rightarrow> MusicEntity list \<times> Relationship list \<times> string set
     \<Rightarrow> MusicEntity list \<times> Relationship list \<times> string set" where
  "pushCredit trackId artist state =
     (case state of (entities, relationships, seenArtists) \<Rightarrow>
        (let artistId = discogsArtistId artist;
             cleanName = cleanArtistName (da_name artist)
         in (if artistId \<notin> seenArtists
             then entities @ [\<lparr>e_id = artistId, e_mbid = None, e_name = cleanName, e_type = Artist\<rparr>]
             else entities,
             relationships @ [creditRelationship trackId artist],
             insert artistId seenArtists)))"

text \<open>
  The test before \<open>continue\<close> in the loop over the release-level credits:
  \<open>artist.tracks && matchingTrack\<close>, and then neither the track's position nor the
  empty string is among the trimmed pieces of \<open>artist.tracks.split(',')\<close>.
\<close>

definition trackPositions :: "string \<Rightarrow> string list" where
  "trackPositions tracks = map trim (splitOn CHR '','' tracks)"

definition skipsCredit :: "DiscogsTrack option \<Rightarrow> DiscogsArtist \<Rightarrow> bool" where
  "skipsCredit matchingTrack artist =
     (if truthy (da_tracks artist) \<and> matchingTrack \<noteq> None
      then dt_position (the matchingTrack) \<notin> set (trackPositions (the (da_tracks artist)))
           \<and> [] \<notin> set (trackPositions (the (da_tracks artist)))
      else False)"

definition releaseCredit ::
  "string \<Rightarrow> DiscogsTrack option \<Rightarrow> DiscogsArtist
     \<Rightarrow> MusicEntity list \<times> Relationship list \<times> string set
     \<Rightarrow> MusicEntity list \<times> Relationship list \<times> string set" where
  "releaseCredit trackId matchingTrack artist state =
     (if skipsCredit matchingTrack artist then state else pushCredit trackId artist state)"

definition findMatchingTrack :: "string \<Rightarrow> DiscogsTrack list \<Rightarrow> DiscogsTrack option" where
  "findMatchingTrack trackName tracklist =
     (let normalizedTrackName = normalizeForComparison trackName
      in find (\<lambda>t. includesStr (normalizeForComparison (dt_title t)) normalizedTrackName
                    \<or> includesStr normalizedTrackName (normalizeForComparison (dt_title t)))
              tracklist)"

text \<open>
  \<open>getTrackCredits\<close>. Whether a token is configured and which release
  \<open>findBestRelease\<close> found (over the network) are parameters; \<open>artistName\<close> and
  \<open>albumName\<close> only serve that search.
\<close>

definition getTrackCredits ::
  "bool \<Rightarrow> DiscogsRelease option \<Rightarrow> string \<Rightarrow> string option \<Rightarrow> DiscogsCredits" where
  "getTrackCredits configured bestRelease trackName existingTrackId =
     (if \<not> configured then \<lparr>dc_entities = [], dc_relationships = []\<rparr>
      else case bestRelease of
        None \<Rightarrow> \<lparr>dc_entities = [], dc_relationships = []\<rparr>
      | Some release \<Rightarrow>
          (let trackId = (if truthy existingTrackId then the existingTrackId
                          else ''track-discogs-'' @ string_of_nat (dr_id release));
               matchingTrack = findMatchingTrack trackName (dr_tracklist release);
               state1 = (case matchingTrack of
                           None \<Rightarrow> ([], [], {})
                         | Some t \<Rightarrow>
                             (case dt_extraartists t of
                                None \<Rightarrow> ([], [], {})
                              | Some artists \<Rightarrow> fold (pushCredit trackId) artists ([], [], {})));
               state2 = (case dr_extraartists release of
                           None \<Rightarrow> state1
                         | Some artists \<Rightarrow> fold (releaseCredit trackId matchingTrack) artists state1)
           in \<lparr>dc_entities = fst state2, dc_relationships = fst (snd state2)\<rparr>))"



text \<open>The credits that \<open>getTrackCredits\<close> turns into relationships, in order.\<close>

definition includedCredits :: "DiscogsRelease \<Rightarrow> string \<Rightarrow> DiscogsArtist list" where
  "includedCredits release trackName =
     (let matchingTrack = findMatchingTrack trackName (dr_tracklist release)
      in (case matchingTrack of None \<Rightarrow> [] | Some t \<Rightarrow> orEmpty (dt_extraartists t))
         @ filter (\<lambda>a. \<not> skipsCredit matchingTrack a) (orEmpty (dr_extraartists release)))"

section \<open>Graph assembly: \<open>buildGraphFromTrack\<close> (\<open>musicbrainz.ts\<close>)\<close>

text \<open>
  The full recording that \<open>fetchMB('/recording/<id>')\<close> returns, and the relations
  of a recording or a work.
\<close>

record MBWork =
  w_id :: string

record MBRelation =
  rel_type :: string
  rel_artist :: "MBArtist option"
  rel_work :: "MBWork option"
  rel_attributes :: "string list option"

record FullRecording =
  fr_title :: string
  fr_artist_credit :: "ArtistCredit list option"
  fr_relations :: "MBRelation list option"
  fr_releases :: "MBRecordingRelease list option"

text \<open>
  The alias tables of the module: \<open>aliasToMbidMap\<close>, \<open>mbidToCanonicalName\<close> and
  \<open>fetchedAliases\<close>. They outlive a call of \<open>buildGraphFromTrack\<close>.
\<close>

record alias_state =
  aliasToMbidMap :: "string \<Rightarrow> string option"
  mbidToCanonicalName :: "string \<Rightarrow> string option"
  fetchedAliases :: "string set"

text \<open>
  \<open>fetchArtistAliases\<close>. \<open>aliasReply mbid\<close> is the list of alias names that the
  catalog returns for the artist, or \<open>None\<close> when the request fails or the answer has
  no aliases. The function runs in two parts, before and after the request:
  \<open>registerArtist\<close> marks the artist as fetched and stores the primary name,
  \<open>receiveAliases\<close> stores the aliases that are not in the table yet.
\<close>

definition registerArtist :: "string \<Rightarrow> string \<Rightarrow> alias_state \<Rightarrow> alias_state" where
  "registerArtist mbid primaryName al =
     al\<lparr>fetchedAliases := insert mbid (fetchedAliases al),
        aliasToMbidMap := (aliasToMbidMap al)(normalizeForCache primaryName \<mapsto> mbid),
        mbidToCanonicalName := (mbidToCanonicalName al)(mbid \<mapsto> primaryName)\<rparr>"

definition storeAlias :: "string \<Rightarrow> string \<Rightarrow> alias_state \<Rightarrow> alias_state" where
  "storeAlias mbid aliasName al =
     (let normalizedAlias = normalizeForCache aliasName
      in if aliasToMbidMap al normalizedAlias = None
         then al\<lparr>aliasToMbidMap := (aliasToMbidMap al)(normalizedAlias \<mapsto> mbid)\<rparr>
         else al)"

definition receiveAliases ::
  "(string \<Rightarrow> string list option) \<Rightarrow> string \<Rightarrow> alias_state \<Rightarrow> alias_state" where
  "receiveAliases aliasReply mbid al =
     (case aliasReply mbid of
        None \<Rightarrow> al
      | Some names \<Rightarrow> fold (storeAlias mbid) names al)"

definition fetchArtistAliases ::
  "(string \<Rightarrow> string list option) \<Rightarrow> string \<Rightarrow> string \<Rightarrow> alias_state \<Rightarrow> alias_state" where
  "fetchArtistAliases aliasReply mbid primaryName al =
     (if mbid \<in> fetchedAliases al then al
      else receiveAliases aliasReply mbid (registerArtist mbid primaryName al))"

text \<open>
  Lines 988-991: the calls for all credited artists are started together, so each
  runs up to its request, in the order of the credits, before any answer is
  processed; the answers are taken in the order of the requests.
\<close>

definition startAliasFetch ::
  "ArtistCredit \<Rightarrow> alias_state \<times> string list \<Rightarrow> alias_state \<times> string list" where
  "startAliasFetch credit state =
     (case state of (al, requested) \<Rightarrow>
        (if a_id (ac_artist credit) \<in> fetchedAliases al then (al, requested)
         else (registerArtist (a_id (ac_artist credit)) (a_name (ac_artist credit)) al,
               requested @ [a_id (ac_artist credit)])))"

definition fetchAllAliases ::
  "(string \<Rightarrow> string list option) \<Rightarrow> ArtistCredit list \<Rightarrow> alias_state \<Rightarrow> alias_state" where
  "fetchAllAliases aliasReply artistCredits al =
     (case fold startAliasFetch artistCredits (al, []) of
        (al1, requested) \<Rightarrow> fold (receiveAliases aliasReply) requested al1)"

definition resolveArtistAlias :: "alias_state \<Rightarrow> string \<Rightarrow> string option" where
  "resolveArtistAlias al name = aliasToMbidMap al (normalizeForCache name)"

text \<open>
  The local state of \<open>buildGraphFromTrack\<close>: the two arrays and the four sets.
  \<open>albumArtistIds\<close> is iterated, so it keeps its insertion order.
\<close>

record build_state =
  bs_entities :: "MusicEntity list"
  bs_relationships :: "Relationship list"
  bs_entityIds :: "string set"
  bs_primaryArtistIds :: "string set"
  bs_albumArtistIds :: "string list"
  bs_normalizedArtistNames :: "string set"

definition addOrdered :: "string \<Rightarrow> string list \<Rightarrow> string list" where
  "addOrdered x xs = (if x \<in> set xs then xs else xs @ [x])"

text \<open>
  \<open>entities.find(e => normalizeArtistName(e.name) === normalizedName && e.type === 'artist')\<close>
\<close>

definition findArtistByName :: "MusicEntity list \<Rightarrow> string \<Rightarrow> MusicEntity option" where
  "findArtistByName entities normalizedName =
     find (\<lambda>e. normalizeArtistName (e_name e) = normalizedName \<and> e_type e = Artist) entities"

definition hasRelationshipId :: "Relationship list \<Rightarrow> string \<Rightarrow> bool" where
  "hasRelationshipId relationships relId = list_ex (\<lambda>r. r_id r = relId) relationships"

definition trackRelId :: "string \<Rightarrow> string \<Rightarrow> string \<Rightarrow> string" where
  "trackRelId trackId targetId role = ''rel-'' @ trackId @ ''-'' @ targetId @ ''-'' @ role"

definition pushArtist :: "MBArtist \<Rightarrow> build_state \<Rightarrow> build_state" where
  "pushArtist artist st =
     st\<lparr>bs_entities := bs_entities st
            @ [\<lparr>e_id = ''artist-'' @ a_id artist, e_mbid = Some (a_id artist),
                e_name = a_name artist, e_type = Artist\<rparr>],
        bs_entityIds := insert (''artist-'' @ a_id artist) (bs_entityIds st),
        bs_normalizedArtistNames := insert (normalizeArtistName (a_name artist))
                                           (bs_normalizedArtistNames st)\<rparr>"

definition pushTrackRel :: "string \<Rightarrow> string \<Rightarrow> string \<Rightarrow> build_state \<Rightarrow> build_state" where
  "pushTrackRel trackId targetId role st =
     st\<lparr>bs_relationships := bs_relationships st
            @ [\<lparr>r_id = trackRelId trackId targetId role, r_source = trackId,
                r_target = targetId, r_role = role\<rparr>]\<rparr>"

text \<open>
  Lines 885-896: the track entity. Lines 915-983: one round of the loop over the
  artist credits; the flag is \<open>nextIsFeatured\<close>.
\<close>

definition initialState :: "string \<Rightarrow> string \<Rightarrow> build_state" where
  "initialState recordingMbid title =
     \<lparr>bs_entities = [\<lparr>e_id = ''track-'' @ recordingMbid, e_mbid = Some recordingMbid,
                       e_name = title, e_type = Track\<rparr>],
      bs_relationships = [],
      bs_entityIds = {''track-'' @ recordingMbid},
      bs_primaryArtistIds = {},
      bs_albumArtistIds = [],
      bs_normalizedArtistNames = {}\<rparr>"

definition artistCreditStep ::
  "string \<Rightarrow> string \<Rightarrow> ArtistCredit \<Rightarrow> build_state \<times> bool \<Rightarrow> build_state \<times> bool" where
  "artistCreditStep trackId normalizedSearchArtist credit state =
     (case state of (st, nextIsFeatured) \<Rightarrow>
        (let artist = ac_artist credit;
             artistId = ''artist-'' @ a_id artist;
             st1 = st\<lparr>bs_primaryArtistIds := insert artistId (bs_primaryArtistIds st)\<rparr>;
             isFeatured = nextIsFeatured;
             joinphrase = toLowerCase (orEmpty (ac_joinphrase credit));
             nextIsFeatured' =
               (includesStr joinphrase ''feat'' \<or> includesStr joinphrase ''ft.''
                \<or> includesStr joinphrase ''featuring''
                \<or> (includesStr joinphrase ''with '' \<and> \<not> includesStr joinphrase ''&''));
             normalizedCreditArtist = normalizeForComparison (a_name artist);
             matchesSearchedArtist =
               (normalizedCreditArtist = normalizedSearchArtist
                \<or> includesStr normalizedCreditArtist normalizedSearchArtist
                \<or> includesStr normalizedSearchArtist normalizedCreditArtist);
             normalizedName = normalizeArtistName (a_name artist);
             st2 = (if artistId \<notin> bs_entityIds st1 \<and> normalizedName \<notin> bs_normalizedArtistNames st1
                    then pushArtist artist st1 else st1);
             effectiveArtistId =
               (if artistId \<notin> bs_entityIds st1 \<and> normalizedName \<notin> bs_normalizedArtistNames st1
                then artistId
                else if normalizedName \<in> bs_normalizedArtistNames st1 \<and> artistId \<notin> bs_entityIds st1
                then (case findArtistByName (bs_entities st1) normalizedName of
                        Some existingArtist \<Rightarrow> e_id existingArtist
                      | None \<Rightarrow> artistId)
                else artistId);
             st3 = st2\<lparr>bs_primaryArtistIds := insert effectiveArtistId (bs_primaryArtistIds st2)\<rparr>;
             st4 = (if \<not> isFeatured \<and> matchesSearchedArtist
                    then st3\<lparr>bs_albumArtistIds := addOrdered effectiveArtistId (bs_albumArtistIds st3)\<rparr>
                    else st3);
             role = (if isFeatured then ''featured'' else ''primary_artist'')
         in (if \<not> hasRelationshipId (bs_relationships st4) (trackRelId trackId effectiveArtistId role)
             then pushTrackRel trackId effectiveArtistId role st4 else st4,
             nextIsFeatured')))"

text \<open>
  Lines 1000-1082: the choice of the release to show as the album. The releases are
  scored, sorted by descending score (stable) and the first is taken.
\<close>

definition isSoundtrackRelease :: "string \<Rightarrow> bool" where
  "isSoundtrackRelease title =
     (let lower = toLowerCase title
      in includesStr lower ''soundtrack'' \<or> includesStr lower ''ost''
         \<or> includesStr lower ''motion picture'' \<or> includesStr lower ''film''
         \<or> includesStr lower ''movie'' \<or> includesStr lower ''music from''
         \<or> includesStr lower ''inspired by'')"

definition albumChoiceScore :: "string option \<Rightarrow> MBRecordingRelease \<Rightarrow> int" where
  "albumChoiceScore normalizedAlbum release =
     (let normalizedReleaseTitle = normalizeForComparison (rl_title release);
          s1 = (if truthy normalizedAlbum then
                  (if normalizedReleaseTitle = the normalizedAlbum then 200
                   else if includesStr normalizedReleaseTitle (the normalizedAlbum)
                           \<or> includesStr (the normalizedAlbum) normalizedReleaseTitle then 80
                   else - 100)
                else 0);
          s2 = (if rl_status release = Some ''Official'' then s1 + 15 else s1);
          s3 = (if isAlternateRelease release then s2 - 150 else s2);
          s4 = (if isSoundtrackRelease (rl_title release) then s3 - 100 else s3)
      in if primaryType release = Some ''Album'' then s4 + 30
         else if primaryType release = Some ''Single'' then s4 + 5
         else if primaryType release = Some ''EP'' then s4 + 10
         else s4)"

definition chooseRelease :: "string option \<Rightarrow> MBRecordingRelease list \<Rightarrow> MBRecordingRelease option" where
  "chooseRelease albumName releases =
     (if releases = [] then None
      else
        (let normalizedAlbum = (if truthy albumName then Some (normalizeForComparison (the albumName))
                                else None)
         in Some (snd (hd (sortByScoreDesc
                  (map (\<lambda>release. (albumChoiceScore normalizedAlbum release, release)) releases))))))"

text \<open>
  Lines 1084-1121: the album entity, the \<open>contains\<close> relationship, and one
  \<open>released_on\<close> relationship for every album artist.
\<close>

definition albumStep :: "string \<Rightarrow> MBRecordingRelease \<Rightarrow> build_state \<Rightarrow> build_state" where
  "albumStep trackId targetRelease st =
     (let albumId = ''release-'' @ rl_id targetRelease;
          st1 = (if albumId \<notin> bs_entityIds st
                 then st\<lparr>bs_entities := bs_entities st
                            @ [\<lparr>e_id = albumId, e_mbid = Some (rl_id targetRelease),
                                e_name = rl_title targetRelease, e_type = Album\<rparr>],
                        bs_entityIds := insert albumId (bs_entityIds st)\<rparr>
                 else st)
      in st1\<lparr>bs_relationships := bs_relationships st1
                @ [\<lparr>r_id = ''rel-'' @ albumId @ ''-'' @ trackId, r_source = albumId,
                    r_target = trackId, r_role = ''contains''\<rparr>]
                @ map (\<lambda>artistId. \<lparr>r_id = ''rel-'' @ artistId @ ''-'' @ albumId, r_source = artistId,
                                     r_target = albumId, r_role = ''released_on''\<rparr>)
                      (bs_albumArtistIds st1)\<rparr>)"

text \<open>
  The identity that a credited artist gets, in the personnel loop and in the loop
  over a work's relations alike (lines 1148-1167 and 1250-1269): the canonical id when
  the name is a known alias of another artist whose entity is in the graph, else the
  id of the entity of the same normalised name, else the artist's own id.
\<close>

definition effectivePersonnelId :: "alias_state \<Rightarrow> build_state \<Rightarrow> MBArtist \<Rightarrow> string" where
  "effectivePersonnelId al st artist =
     (let personnelId = ''artist-'' @ a_id artist;
          normalizedName = normalizeArtistName (a_name artist);
          canonicalMbid = resolveArtistAlias al (a_name artist)
      in if truthy canonicalMbid \<and> the canonicalMbid \<noteq> a_id artist
         then (if ''artist-'' @ the canonicalMbid \<in> bs_entityIds st
               then ''artist-'' @ the canonicalMbid else personnelId)
         else if normalizedName \<in> bs_normalizedArtistNames st \<and> personnelId \<notin> bs_entityIds st
         then (case findArtistByName (bs_entities st) normalizedName of
                 Some existingArtist \<Rightarrow> e_id existingArtist
               | None \<Rightarrow> personnelId)
         else personnelId)"

text \<open>
  Lines 1139-1215: one round of the personnel loop. \<open>mapRole\<close> stands for
  \<open>mapMBRelationType\<close>, a table from relation types and attributes to roles.
\<close>

definition personnelStep ::
  "(string \<Rightarrow> string list option \<Rightarrow> string) \<Rightarrow> alias_state \<Rightarrow> string \<Rightarrow> MBRelation
     \<Rightarrow> build_state \<Rightarrow> build_state" where
  "personnelStep mapRole al trackId rel st =
     (case rel_artist rel of
        None \<Rightarrow> st
      | Some artist \<Rightarrow>
          (let effectiveId = effectivePersonnelId al st artist;
               role = mapRole (rel_type rel) (rel_attributes rel)
           in if effectiveId \<in> bs_primaryArtistIds st
              then (if role \<noteq> ''primary_artist''
                       \<and> \<not> hasRelationshipId (bs_relationships st) (trackRelId trackId effectiveId role)
                    then pushTrackRel trackId effectiveId role st else st)
              else
                (let st1 = (if effectiveId \<notin> bs_entityIds st
                               \<and> normalizeArtistName (a_name artist) \<notin> bs_normalizedArtistNames st
                            then pushArtist artist st else st)
                 in if \<not> hasRelationshipId (bs_relationships st1) (trackRelId trackId effectiveId role)
                    then pushTrackRel trackId effectiveId role st1 else st1)))"

text \<open>Lines 1240-1311: one round of the loop over the artist relations of a work.\<close>

definition workRole :: "string \<Rightarrow> string" where
  "workRole relType =
     (let workRole = toLowerCase relType
      in if workRole = ''composer'' \<or> workRole = ''music by'' \<or> workRole = ''composed by'' then ''composer''
         else if workRole = ''lyricist'' \<or> workRole = ''lyrics by'' then ''lyricist''
         else if workRole = ''writer'' \<or> workRole = ''written by'' then ''songwriter''
         else if workRole = ''arranger'' \<or> workRole = ''arranged by'' then ''arranger''
         else ''songwriter'')"

definition workRelationStep :: "alias_state \<Rightarrow> string \<Rightarrow> MBRelation \<Rightarrow> build_state \<Rightarrow> build_state" where
  "workRelationStep al trackId rel st =
     (case rel_artist rel of
        None \<Rightarrow> st
      | Some artist \<Rightarrow>
          (let effectiveId = effectivePersonnelId al st artist;
               role = workRole (rel_type rel)
           in if hasRelationshipId (bs_relationships st) (trackRelId trackId effectiveId role) then st
              else
                (let st1 = (if effectiveId \<notin> bs_entityIds st
                               \<and> normalizeArtistName (a_name artist) \<notin> bs_normalizedArtistNames st
                            then pushArtist artist st else st)
                 in pushTrackRel trackId effectiveId role st1)))"

text \<open>
  Lines 1220-1317: for every relation of the recording that has a work, the work is
  fetched and its artist relations are processed. \<open>workReply\<close> gives, for a work id,
  the relations of the answer: \<open>None\<close> when the request fails (the \<open>catch\<close> skips
  the work) or the answer has no \<open>relations\<close>.
\<close>

definition workStep ::
  "(string \<Rightarrow> MBRelation list option) \<Rightarrow> alias_state \<Rightarrow> string \<Rightarrow> MBRelation
     \<Rightarrow> build_state \<Rightarrow> build_state" where
  "workStep workReply al trackId workRel st =
     (case rel_work workRel of
        None \<Rightarrow> st
      | Some work \<Rightarrow>
          (case workReply (w_id work) of
             None \<Rightarrow> st
           | Some relations \<Rightarrow> fold (workRelationStep al trackId) relations st))"

text \<open>
  Lines 1339-1360: one round of the loop over the Discogs entities. The state is
  \<open>(entities, entityIds, existingNames)\<close>.
\<close>

definition mergeEntityStep ::
  "alias_state \<Rightarrow> MusicEntity \<Rightarrow> MusicEntity list \<times> string set \<times> string set
     \<Rightarrow> MusicEntity list \<times> string set \<times> string set" where
  "mergeEntityStep al entity state =
     (case state of (entities, entityIds, existingNames) \<Rightarrow>
        (let normalizedName = normalizeArtistName (e_name entity);
             canonicalMbid = resolveArtistAlias al (e_name entity)
         in if truthy canonicalMbid \<and> ''artist-'' @ the canonicalMbid \<in> entityIds then state
            else if normalizedName \<notin> existingNames
            then (entities @ [entity], insert (e_id entity) entityIds,
                  insert normalizedName existingNames)
            else state))"

text \<open>
  Lines 1363-1392: the relationship as the merge rewrites it. \<open>entities\<close> and
  \<open>entityIds\<close> are those of the graph after the loop over the Discogs entities.
\<close>

definition remapTo :: "string \<Rightarrow> string \<Rightarrow> Relationship \<Rightarrow> Relationship" where
  "remapTo trackId targetId rel =
     rel\<lparr>r_target := targetId,
         r_id := ''rel-'' @ trackId @ ''-'' @ targetId @ ''-'' @ r_role rel @ ''-discogs''\<rparr>"

definition remapRelationship ::
  "alias_state \<Rightarrow> string \<Rightarrow> MusicEntity list \<Rightarrow> MusicEntity list \<Rightarrow> string set
     \<Rightarrow> Relationship \<Rightarrow> Relationship" where
  "remapRelationship al trackId discogsEntities entities entityIds rel =
     (let rel1 =
        (case find (\<lambda>e. e_id e = r_target rel) discogsEntities of
           None \<Rightarrow> rel
         | Some discogsEntity \<Rightarrow>
             (let canonicalMbid = resolveArtistAlias al (e_name discogsEntity)
              in if truthy canonicalMbid
                 then (if ''artist-'' @ the canonicalMbid \<in> entityIds
                       then remapTo trackId (''artist-'' @ the canonicalMbid) rel else rel)
                 else (case findArtistByName entities (normalizeArtistName (e_name discogsEntity)) of
                         None \<Rightarrow> rel
                       | Some existingEntity \<Rightarrow>
                           (if e_id existingEntity \<noteq> r_target rel
                            then remapTo trackId (e_id existingEntity) rel else rel))))
      in rel1\<lparr>r_source := trackId\<rparr>)"

definition isDuplicate :: "Relationship list \<Rightarrow> Relationship \<Rightarrow> bool" where
  "isDuplicate relationships rel =
     list_ex (\<lambda>r. r_source r = r_source rel \<and> r_target r = r_target rel \<and> r_role r = r_role rel)
             relationships"

definition mergeRelationshipStep ::
  "alias_state \<Rightarrow> string \<Rightarrow> MusicEntity list \<Rightarrow> MusicEntity list \<Rightarrow> string set
     \<Rightarrow> Relationship \<Rightarrow> Relationship list \<Rightarrow> Relationship list" where
  "mergeRelationshipStep al trackId discogsEntities entities entityIds rel relationships =
     (let rel' = remapRelationship al trackId discogsEntities entities entityIds rel
      in if isDuplicate relationships rel' then relationships else relationships @ [rel'])"

text \<open>Lines 1333-1404: the merge of the Discogs credits into the graph.\<close>

definition mergeDiscogs :: "alias_state \<Rightarrow> string \<Rightarrow> DiscogsCredits \<Rightarrow> build_state \<Rightarrow> build_state" where
  "mergeDiscogs al trackId discogsCredits st =
     (if dc_entities discogsCredits = [] then st
      else
        (case fold (mergeEntityStep al) (dc_entities discogsCredits)
                (bs_entities st, bs_entityIds st,
                 set (map (\<lambda>e. normalizeArtistName (e_name e)) (bs_entities st))) of
           (entities, entityIds, existingNames) \<Rightarrow>
             st\<lparr>bs_entities := entities,
                bs_entityIds := entityIds,
                bs_relationships :=
                  fold (mergeRelationshipStep al trackId (dc_entities discogsCredits) entities entityIds)
                       (dc_relationships discogsCredits) (bs_relationships st)\<rparr>))"

text \<open>
  \<open>buildGraphFromTrack\<close> from line 885 on: the recording has been chosen and its full
  details fetched. The images (lines 1411-1488) only fill the \<open>image\<close> field, which
  the model leaves out; the result is also handed to \<open>setCachedTrack\<close>. A recording without a \<open>releases\<close> field makes line 996 read
  \<open>bestRecording\<close>, which is out of scope there.
\<close>

datatype build_error = ReferenceError

record MusicGraph =
  g_entities :: "MusicEntity list"
  g_relationships :: "Relationship list"

definition assembleGraph ::
  "(string \<Rightarrow> string list option \<Rightarrow> string) \<Rightarrow> (string \<Rightarrow> string list option)
     \<Rightarrow> (string \<Rightarrow> MBRelation list option) \<Rightarrow> bool \<Rightarrow> DiscogsRelease option
     \<Rightarrow> alias_state \<Rightarrow> string \<Rightarrow> string \<Rightarrow> string option \<Rightarrow> string \<Rightarrow> FullRecording
     \<Rightarrow> build_error + MusicGraph \<times> alias_state" where
  "assembleGraph mapRole aliasReply workReply discogsConfigured discogsRelease al
                 trackName artistName albumName recordingMbid fullRecording =
     (let trackId = ''track-'' @ recordingMbid;
          artistCredits = (case fr_artist_credit fullRecording of None \<Rightarrow> [] | Some cs \<Rightarrow> cs);
          st1 = fst (fold (artistCreditStep trackId (normalizeForComparison artistName)) artistCredits
                       (initialState recordingMbid (fr_title fullRecording), False));
          al1 = fetchAllAliases aliasReply artistCredits al
      in case fr_releases fullRecording of
           None \<Rightarrow> Inl ReferenceError
         | Some releases \<Rightarrow>
             (let st2 = (case chooseRelease albumName releases of
                           None \<Rightarrow> st1
                         | Some targetRelease \<Rightarrow> albumStep trackId targetRelease st1);
                  relations = (case fr_relations fullRecording of None \<Rightarrow> [] | Some rs \<Rightarrow> rs);
                  st3 = fold (personnelStep mapRole al1 trackId) relations st2;
                  st4 = fold (workStep workReply al1 trackId) relations st3;
                  st5 = (if discogsConfigured
                         then mergeDiscogs al1 trackId
                                (getTrackCredits discogsConfigured discogsRelease trackName (Some trackId)) st4
                         else st4)
              in Inr (\<lparr>g_entities = bs_entities st5, g_relationships = bs_relationships st5\<rparr>, al1)))"

text \<open>The three invariants of an assembled graph.\<close>

definition uniqueEntityIds :: "MusicGraph \<Rightarrow> bool" where
  "uniqueEntityIds g = distinct (map e_id (g_entities g))"

definition uniqueRelationshipIds :: "MusicGraph \<Rightarrow> bool" where
  "uniqueRelationshipIds g = distinct (map r_id (g_relationships g))"

definition hasEntity :: "MusicGraph \<Rightarrow> string \<Rightarrow> bool" where
  "hasEntity g entityId = list_ex (\<lambda>e. e_id e = entityId) (g_entities g)"

definition noDanglingRelationship :: "MusicGraph \<Rightarrow> bool" where
  "noDanglingRelationship g =
     list_all (\<lambda>r. hasEntity g (r_source r) \<and> hasEntity g (r_target r)) (g_relationships g)"

text \<open>
  The test of lines 1345-1347 and 1370-1372 on a credited name: the alias table knows
  the name, and the entity of the artist it stands for is in the graph.
\<close>

definition aliasInGraph :: "alias_state \<Rightarrow> string set \<Rightarrow> string \<Rightarrow> bool" where
  "aliasInGraph al entityIds name =
     (truthy (resolveArtistAlias al name)
      \<and> ''artist-'' @ the (resolveArtistAlias al name) \<in> entityIds)"

definition sameTriple :: "Relationship \<Rightarrow> Relationship \<Rightarrow> bool" where
  "sameTriple r r' = (r_source r = r_source r' \<and> r_target r = r_target r' \<and> r_role r = r_role r')"

text \<open>
  Example data for the graph assembly: an alias table that knows "abel tesfaye" as
  the artist C, and the graph of a track after the credits of its recording, with that
  artist in it.
\<close>

definition example_aliases :: alias_state where
  "example_aliases =
     \<lparr>aliasToMbidMap = [''the weeknd'' \<mapsto> ''C'', ''abel tesfaye'' \<mapsto> ''C''],
      mbidToCanonicalName = [''C'' \<mapsto> ''The Weeknd''],
      fetchedAliases = {''C''}\<rparr>"

definition example_graph :: build_state where
  "example_graph =
     fst (artistCreditStep ''track-R'' (normalizeForComparison ''The Weeknd'')
            \<lparr>ac_artist = \<lparr>a_id = ''C'', a_name = ''The Weeknd''\<rparr>, ac_joinphrase = None\<rparr>
            (initialState ''R'' ''Blinding Lights'', False))"

definition example_work_credit :: MBRelation where
  "example_work_credit =
     \<lparr>rel_type = ''writer'', rel_artist = Some \<lparr>a_id = ''X'', a_name = ''Abel Tesfaye''\<rparr>,
      rel_work = None, rel_attributes = None\<rparr>"

definition example_discogs_release :: DiscogsRelease where
  "example_discogs_release =
     \<lparr>dr_id = 5,
      dr_tracklist = [\<lparr>dt_position = ''1'', dt_title = ''Blinding Lights'',
                       dt_extraartists = Some [\<lparr>da_id = 7, da_name = ''Abel Tesfaye'',
                                                 da_role = Some ''Written-By'', da_tracks = None\<rparr>]\<rparr>],
      dr_extraartists = None\<rparr>"

definition example_discogs_credits :: DiscogsCredits where
  "example_discogs_credits =
     getTrackCredits True (Some example_discogs_release) ''Blinding Lights'' (Some ''track-R'')"

text \<open>
  A recording whose title is also the name of a person credited on its Discogs
  release, and empty alias tables.
\<close>

definition no_aliases :: alias_state where
  "no_aliases = \<lparr>aliasToMbidMap = (\<lambda>name. None), mbidToCanonicalName = (\<lambda>mbid. None),
                 fetchedAliases = {}\<rparr>"

definition namesake_recording :: FullRecording where
  "namesake_recording =
     \<lparr>fr_title = ''Etta'',
      fr_artist_credit = Some [\<lparr>ac_artist = \<lparr>a_id = ''P'', a_name = ''The Larks''\<rparr>,
                                ac_joinphrase = None\<rparr>],
      fr_relations = Some [],
      fr_releases = Some [\<lparr>rl_id = ''A'', rl_title = ''Night Songs'', rl_status = Some ''Official'',
                           rl_date = None,
                           rl_release_group = Some \<lparr>rg_id = ''G'', rg_primary_type = Some ''Album'',
                                                     rg_secondary_types = None\<rparr>\<rparr>]\<rparr>"

definition namesake_release :: DiscogsRelease where
  "namesake_release =
     \<lparr>dr_id = 5,
      dr_tracklist = [\<lparr>dt_position = ''2'', dt_title = ''Etta'',
                       dt_extraartists = Some [\<lparr>da_id = 7, da_name = ''Etta'',
                                                 da_role = Some ''Vocals'', da_tracks = None\<rparr>]\<rparr>],
      dr_extraartists = None\<rparr>"

definition namesake_graph :: MusicGraph where
  "namesake_graph =
     \<lparr>g_entities =
        [\<lparr>e_id = ''track-R'', e_mbid = Some ''R'', e_name = ''Etta'', e_type = Track\<rparr>,
         \<lparr>e_id = ''artist-P'', e_mbid = Some ''P'', e_name = ''The Larks'', e_type = Artist\<rparr>,
         \<lparr>e_id = ''release-A'', e_mbid = Some ''A'', e_name = ''Night Songs'', e_type = Album\<rparr>],
      g_relationships =
        [\<lparr>r_id = ''rel-track-R-artist-P-primary_artist'', r_source = ''track-R'',
           r_target = ''artist-P'', r_role = ''primary_artist''\<rparr>,
         \<lparr>r_id = ''rel-release-A-track-R'', r_source = ''release-A'',
           r_target = ''track-R'', r_role = ''contains''\<rparr>,
         \<lparr>r_id = ''rel-artist-P-release-A'', r_source = ''artist-P'',
           r_target = ''release-A'', r_role = ''released_on''\<rparr>,
         \<lparr>r_id = ''rel-discogs-track-R-artist-discogs-7-vocals'', r_source = ''track-R'',
           r_target = ''artist-discogs-7'', r_role = ''vocals''\<rparr>]\<rparr>"

section \<open>Theorems\<close>

subsection \<open>Code units\<close>

lemma isUpperChar_code_unit:
  "isUpperChar c \<longleftrightarrow> (65 \<le> (of_char c :: nat) \<and> (of_char c :: nat) \<le> 90)
      \<or> (192 \<le> (of_char c :: nat) \<and> (of_char c :: nat) \<le> 222 \<and> (of_char c :: nat) \<noteq> 215)"
  apply (cases c)
  subgoal for b0 b1 b2 b3 b4 b5 b6 b7
    by (cases b0; cases b1; cases b2; cases b3; cases b4; cases b5; cases b6; cases b7; simp)
  done

lemma toLowerChar_code_unit:
  "(of_char (toLowerChar c) :: nat) = (if isUpperChar c then of_char c + 32 else of_char c)"
  apply (cases c)
  subgoal for b0 b1 b2 b3 b4 b5 b6 b7
    by (cases b0; cases b1; cases b2; cases b3; cases b4; cases b5; cases b6; cases b7; simp)
  done


lemma isDigit_code_unit:
  "isDigit c \<longleftrightarrow> 48 \<le> (of_char c :: nat) \<and> (of_char c :: nat) \<le> 57"
  apply (cases c)
  subgoal for b0 b1 b2 b3 b4 b5 b6 b7
    by (cases b0; cases b1; cases b2; cases b3; cases b4; cases b5; cases b6; cases b7; simp)
  done


lemma isLineTerminator_code_unit:
  "isLineTerminator c \<longleftrightarrow> (of_char c :: nat) \<in> {10, 13}"
  apply (cases c)
  subgoal for b0 b1 b2 b3 b4 b5 b6 b7
    by (cases b0; cases b1; cases b2; cases b3; cases b4; cases b5; cases b6; cases b7; simp)
  done

subsection \<open>Normalising strings that are already plain\<close>







lemma fetchDiscogs_429_prefix:
  "\<forall>x\<in>set rs. is_429 x \<Longrightarrow>
   fetchDiscogs (rs @ rest) =
     (case fetchDiscogs rest of
        None \<Rightarrow> None
      | Some r \<Rightarrow> Some (r\<lparr>calls := calls r + length rs, waited := waited r + 60000 * length rs\<rparr>))"
proof (induction rs)
  case Nil
  show ?case by (simp split: option.split)
next
  case (Cons x rs)
  then obtain b where x: "x = Reply 429 b"
    by (cases x) auto
  from Cons show ?case
    by (simp add: x response_ok_def split: option.split)
qed

lemma fetchDiscogs_settles:
  "\<not> is_429 r \<Longrightarrow> fetchDiscogs (r # rest) = Some \<lparr>outcome = settle r, calls = 1, waited = 0\<rparr>"
  by (cases r) auto

lemma fetchMB_settles:
  "fetchMB (r # rest) = Some \<lparr>outcome = settle r, calls = 1, waited = 0\<rparr>"
  by (cases r) auto

text \<open>
  Claim C8 (as stated): every call that receives a 429 is retried exactly once after a
  fixed backoff, and a failing retry is propagated. The code does otherwise on both
  clients. \<open>fetchDiscogs\<close>, answered 429 twice and then 200, issues a third request
  and returns its data; \<open>fetchMB\<close>, answered 429, issues no second request at all.
\<close>

theorem C8_retry_once_counterexample:
  "fetchDiscogs [Reply 429 0, Reply 429 0, Reply 200 (7::nat)]
     = Some \<lparr>outcome = Inr 7, calls = 3, waited = 120000\<rparr>
   \<and> retry_once_spec 60000 [Reply 429 0, Reply 429 0, Reply 200 (7::nat)]
     = Some \<lparr>outcome = Inl (ApiError 429), calls = 2, waited = 60000\<rparr>
   \<and> fetchMB [Reply 429 0, Reply 200 (7::nat)]
     = Some \<lparr>outcome = Inl (ApiError 429), calls = 1, waited = 0\<rparr>
   \<and> retry_once_spec 60000 [Reply 429 0, Reply 200 (7::nat)]
     = Some \<lparr>outcome = Inr 7, calls = 2, waited = 60000\<rparr>"
  by (simp add: response_ok_def)

text \<open>
  Claim C8 (amended): a Discogs call that is answered 429 waits 60 seconds and issues
  the same request again, once for every 429 it receives; the first reply that is not
  a 429 settles the call (its data, or its error propagated), and while only 429s
  arrive the call does not return. A MusicBrainz call issues exactly one request and
  propagates any failure, a 429 included, without waiting or retrying.
\<close>

theorem C8_discogs_retries_every_429_mb_never:
  assumes "\<forall>x\<in>set rs. is_429 x" and "\<not> is_429 r"
  shows "fetchDiscogs (rs @ r # rest)
           = Some \<lparr>outcome = settle r, calls = length rs + 1, waited = 60000 * length rs\<rparr>
         \<and> fetchDiscogs rs = None
         \<and> fetchMB (r' # rest') = Some \<lparr>outcome = settle r', calls = 1, waited = 0\<rparr>"
proof -
  have "fetchDiscogs (rs @ r # rest)
          = Some \<lparr>outcome = settle r, calls = length rs + 1, waited = 60000 * length rs\<rparr>"
    using fetchDiscogs_429_prefix [OF assms(1), of "r # rest"] fetchDiscogs_settles [OF assms(2), of rest]
    by simp
  moreover have "fetchDiscogs rs = None"
    using fetchDiscogs_429_prefix [OF assms(1), of "[]"] by simp
  ultimately show ?thesis
    by (simp add: fetchMB_settles)
qed

theorem C8_discogs_retries_every_429_mb_never_witness:
  "fetchDiscogs ([Reply 429 0, Reply 429 0] @ Reply 500 (0::nat) # [Reply 200 1])
     = Some \<lparr>outcome = Inl (ApiError 500), calls = 3, waited = 120000\<rparr>
   \<and> fetchDiscogs [Reply 429 0, Reply 429 (0::nat)] = None
   \<and> fetchMB (Reply 429 (0::nat) # [Reply 200 1])
     = Some \<lparr>outcome = Inl (ApiError 429), calls = 1, waited = 0\<rparr>"
  using C8_discogs_retries_every_429_mb_never
    [of "[Reply 429 0, Reply 429 (0::nat)]" "Reply 500 (0::nat)" "[Reply 200 1]"
        "Reply 429 (0::nat)" "[Reply 200 1]"]
  by (simp add: response_ok_def)

subsection \<open>The recording matcher\<close>

lemma fold_max_Max:
  "fold (\<lambda>x best. max best (f x)) xs (b::int) = Max (insert b (f ` set xs))"
proof (induction xs arbitrary: b)
  case Nil
  show ?case by simp
next
  case (Cons x xs)
  have "Max (insert (max b (f x)) (f ` set xs)) = Max (insert b (insert (f x) (f ` set xs)))"
    by (cases "set xs = {}") (simp_all add: max.assoc)
  with Cons show ?case by simp
qed

lemma hd_insort_key:
  "hd (insort_key k x ys) = (if ys = [] \<or> k x \<le> k (hd ys) then x else hd ys)"
  by (cases ys) auto

lemma sort_key_Nil_iff: "sort_key k xs = [] \<longleftrightarrow> xs = []"
  by (metis length_sort list.size(3) length_0_conv)

text \<open>
  The head of the stable descending sort is the first element, in input order, whose
  score is maximal.
\<close>

lemma hd_sortByScoreDesc:
  "xs \<noteq> [] \<Longrightarrow>
   \<exists>i<length xs. hd (sortByScoreDesc xs) = xs ! i
     \<and> (\<forall>j<length xs. fst (xs ! j) \<le> fst (xs ! i))
     \<and> (\<forall>j<i. fst (xs ! j) < fst (xs ! i))"
proof (induction xs)
  case Nil
  then show ?case by simp
next
  case (Cons x xs)
  show ?case
  proof (cases "xs = []")
    case True
    then show ?thesis by (simp add: sortByScoreDesc_def)
  next
    case False
    from Cons.IH [OF False] obtain i where i: "i < length xs"
      and h: "hd (sortByScoreDesc xs) = xs ! i"
      and mx: "\<forall>j<length xs. fst (xs ! j) \<le> fst (xs ! i)"
      and fi: "\<forall>j<i. fst (xs ! j) < fst (xs ! i)"
      by blast
    have ne: "sort_key (\<lambda>sr. - fst sr) xs \<noteq> []"
      using False by (simp add: sort_key_Nil_iff)
    have hd_eq: "hd (sortByScoreDesc (x # xs)) = (if fst (xs ! i) \<le> fst x then x else xs ! i)"
      using h ne by (simp add: sortByScoreDesc_def hd_insort_key)
    show ?thesis
    proof (cases "fst (xs ! i) \<le> fst x")
      case True
      have "\<forall>j<length (x # xs). fst ((x # xs) ! j) \<le> fst x"
      proof (intro allI impI)
        fix j assume "j < length (x # xs)"
        then show "fst ((x # xs) ! j) \<le> fst x"
          using mx True by (cases j) (auto intro: order_trans)
      qed
      then show ?thesis
        using hd_eq True by (intro exI [of _ 0]) simp
    next
      case False
      have a: "\<forall>j<length (x # xs). fst ((x # xs) ! j) \<le> fst ((x # xs) ! Suc i)"
      proof (intro allI impI)
        fix j assume "j < length (x # xs)"
        then show "fst ((x # xs) ! j) \<le> fst ((x # xs) ! Suc i)"
          using mx False by (cases j) auto
      qed
      have b: "\<forall>j<Suc i. fst ((x # xs) ! j) < fst ((x # xs) ! Suc i)"
      proof (intro allI impI)
        fix j assume "j < Suc i"
        then show "fst ((x # xs) ! j) < fst ((x # xs) ! Suc i)"
          using fi False by (cases j) auto
      qed
      show ?thesis
        using hd_eq False a b i by (intro exI [of _ "Suc i"]) simp
    qed
  qed
qed

text \<open>
  Claim C5: for a non-empty candidate list the matcher returns the candidate of
  highest adjusted score, whatever the sign of the scores, and among candidates of
  equal score the one that comes first in the input; the "no match" result stands
  for the empty candidate list and for nothing else.
\<close>

theorem C5_best_recording_selected:
  "(selectRecording trackName artistName albumName recordings = None \<longleftrightarrow> recordings = [])
   \<and> (recordings \<noteq> [] \<longrightarrow>
        (\<exists>i<length recordings.
           selectRecording trackName artistName albumName recordings = Some (recordings ! i)
           \<and> (\<forall>j<length recordings.
                 scoreRecordingMatch (recordings ! j) trackName artistName albumName
                   \<le> scoreRecordingMatch (recordings ! i) trackName artistName albumName)
           \<and> (\<forall>j<i. scoreRecordingMatch (recordings ! j) trackName artistName albumName
                   < scoreRecordingMatch (recordings ! i) trackName artistName albumName)))"
proof -
  let ?sc = "\<lambda>r. scoreRecordingMatch r trackName artistName albumName"
  let ?xs = "map (\<lambda>r. (?sc r, r)) recordings"
  have none: "selectRecording trackName artistName albumName recordings = None \<longleftrightarrow> recordings = []"
    by (simp add: selectRecording_def)
  have some: "\<exists>i<length recordings.
           selectRecording trackName artistName albumName recordings = Some (recordings ! i)
           \<and> (\<forall>j<length recordings. ?sc (recordings ! j) \<le> ?sc (recordings ! i))
           \<and> (\<forall>j<i. ?sc (recordings ! j) < ?sc (recordings ! i))"
    if ne: "recordings \<noteq> []"
  proof -
    from ne have "?xs \<noteq> []" by simp
    from hd_sortByScoreDesc [OF this] obtain i where i: "i < length recordings"
      and h: "hd (sortByScoreDesc ?xs) = ?xs ! i"
      and mx: "\<forall>j<length ?xs. fst (?xs ! j) \<le> fst (?xs ! i)"
      and fi: "\<forall>j<i. fst (?xs ! j) < fst (?xs ! i)"
      by auto
    have "selectRecording trackName artistName albumName recordings = Some (recordings ! i)"
      using ne h i by (simp add: selectRecording_def)
    moreover have "\<forall>j<length recordings. ?sc (recordings ! j) \<le> ?sc (recordings ! i)"
      using mx i by simp
    moreover have "\<forall>j<i. ?sc (recordings ! j) < ?sc (recordings ! i)"
      using fi i by simp
    ultimately show ?thesis using i by blast
  qed
  from none some show ?thesis by blast
qed

text \<open>
  Three candidates, all of negative score (-80, -70, -70): the second is returned,
  ahead of the third of equal score.
\<close>

theorem C5_best_recording_selected_witness:
  "[\<lparr>rs_id = ''r1'', rs_title = ''Smooth Criminal (Live)'', rs_score = Some 20,
      rs_disambiguation = Some ''live'', rs_artist_credit = None, rs_releases = None\<rparr>,
    \<lparr>rs_id = ''r2'', rs_title = ''Smooth Criminal (Remix)'', rs_score = Some 30,
      rs_disambiguation = None, rs_artist_credit = None, rs_releases = None\<rparr>,
    \<lparr>rs_id = ''r3'', rs_title = ''Smooth Criminal (Demo)'', rs_score = Some 30,
      rs_disambiguation = None, rs_artist_credit = None, rs_releases = None\<rparr>] \<noteq> []
   \<and> selectRecording ''Smooth Criminal'' ''Michael Jackson'' None
       [\<lparr>rs_id = ''r1'', rs_title = ''Smooth Criminal (Live)'', rs_score = Some 20,
          rs_disambiguation = Some ''live'', rs_artist_credit = None, rs_releases = None\<rparr>,
        \<lparr>rs_id = ''r2'', rs_title = ''Smooth Criminal (Remix)'', rs_score = Some 30,
          rs_disambiguation = None, rs_artist_credit = None, rs_releases = None\<rparr>,
        \<lparr>rs_id = ''r3'', rs_title = ''Smooth Criminal (Demo)'', rs_score = Some 30,
          rs_disambiguation = None, rs_artist_credit = None, rs_releases = None\<rparr>]
     = Some \<lparr>rs_id = ''r2'', rs_title = ''Smooth Criminal (Remix)'', rs_score = Some 30,
          rs_disambiguation = None, rs_artist_credit = None, rs_releases = None\<rparr>
   \<and> scoreRecordingMatch
        \<lparr>rs_id = ''r1'', rs_title = ''Smooth Criminal (Live)'', rs_score = Some 20,
          rs_disambiguation = Some ''live'', rs_artist_credit = None, rs_releases = None\<rparr>
        ''Smooth Criminal'' ''Michael Jackson'' None = - 80
   \<and> scoreRecordingMatch
        \<lparr>rs_id = ''r2'', rs_title = ''Smooth Criminal (Remix)'', rs_score = Some 30,
          rs_disambiguation = None, rs_artist_credit = None, rs_releases = None\<rparr>
        ''Smooth Criminal'' ''Michael Jackson'' None = - 70
   \<and> scoreRecordingMatch
        \<lparr>rs_id = ''r3'', rs_title = ''Smooth Criminal (Demo)'', rs_score = Some 30,
          rs_disambiguation = None, rs_artist_credit = None, rs_releases = None\<rparr>
        ''Smooth Criminal'' ''Michael Jackson'' None = - 70
   \<and> selectRecording ''Smooth Criminal'' ''Michael Jackson'' None [] = None"
proof -
  have e: "selectRecording ''Smooth Criminal'' ''Michael Jackson'' None
       [\<lparr>rs_id = ''r1'', rs_title = ''Smooth Criminal (Live)'', rs_score = Some 20,
          rs_disambiguation = Some ''live'', rs_artist_credit = None, rs_releases = None\<rparr>,
        \<lparr>rs_id = ''r2'', rs_title = ''Smooth Criminal (Remix)'', rs_score = Some 30,
          rs_disambiguation = None, rs_artist_credit = None, rs_releases = None\<rparr>,
        \<lparr>rs_id = ''r3'', rs_title = ''Smooth Criminal (Demo)'', rs_score = Some 30,
          rs_disambiguation = None, rs_artist_credit = None, rs_releases = None\<rparr>]
     = Some \<lparr>rs_id = ''r2'', rs_title = ''Smooth Criminal (Remix)'', rs_score = Some 30,
          rs_disambiguation = None, rs_artist_credit = None, rs_releases = None\<rparr>"
    by code_simp
  have s1: "scoreRecordingMatch
        \<lparr>rs_id = ''r1'', rs_title = ''Smooth Criminal (Live)'', rs_score = Some 20,
          rs_disambiguation = Some ''live'', rs_artist_credit = None, rs_releases = None\<rparr>
        ''Smooth Criminal'' ''Michael Jackson'' None = - 80"
    by code_simp
  have s2: "scoreRecordingMatch
        \<lparr>rs_id = ''r2'', rs_title = ''Smooth Criminal (Remix)'', rs_score = Some 30,
          rs_disambiguation = None, rs_artist_credit = None, rs_releases = None\<rparr>
        ''Smooth Criminal'' ''Michael Jackson'' None = - 70"
    by code_simp
  have s3: "scoreRecordingMatch
        \<lparr>rs_id = ''r3'', rs_title = ''Smooth Criminal (Demo)'', rs_score = Some 30,
          rs_disambiguation = None, rs_artist_credit = None, rs_releases = None\<rparr>
        ''Smooth Criminal'' ''Michael Jackson'' None = - 70"
    by code_simp
  from C5_best_recording_selected
         [of "''Smooth Criminal''" "''Michael Jackson''" None "[]"]
  have n: "selectRecording ''Smooth Criminal'' ''Michael Jackson'' None [] = None"
    by simp
  from e s1 s2 s3 n show ?thesis by simp
qed

text \<open>
  Claim C4 (as stated): the album adjustment uses +15 for an official release, +30
  for an Album, +10 for an EP, -50 for an edition title and -100 when nothing
  matches. On a candidate whose one release is the official album of the requested
  title, the code adds 105 where the claim's constants give 125; on a candidate with
  no release at all, the code adds -50 where the claim gives -100.
\<close>

theorem C4_album_constants_counterexample:
  "scoreRecordingMatch
      \<lparr>rs_id = ''r1'', rs_title = ''Smooth Criminal'', rs_score = Some 100,
        rs_disambiguation = None, rs_artist_credit = None,
        rs_releases = Some [\<lparr>rl_id = ''b1'', rl_title = ''Bad'', rl_status = Some ''Official'',
          rl_date = None,
          rl_release_group = Some \<lparr>rg_id = ''g1'', rg_primary_type = Some ''Album'',
                                     rg_secondary_types = None\<rparr>\<rparr>]\<rparr>
      ''Smooth Criminal'' ''Michael Jackson'' (Some ''Bad'')
    - scoreRecordingMatch
      \<lparr>rs_id = ''r1'', rs_title = ''Smooth Criminal'', rs_score = Some 100,
        rs_disambiguation = None, rs_artist_credit = None,
        rs_releases = Some [\<lparr>rl_id = ''b1'', rl_title = ''Bad'', rl_status = Some ''Official'',
          rl_date = None,
          rl_release_group = Some \<lparr>rg_id = ''g1'', rg_primary_type = Some ''Album'',
                                     rg_secondary_types = None\<rparr>\<rparr>]\<rparr>
      ''Smooth Criminal'' ''Michael Jackson'' None = 105
   \<and> spec_albumAdjustment (normalizeForComparison ''Bad'')
        [\<lparr>rl_id = ''b1'', rl_title = ''Bad'', rl_status = Some ''Official'',
          rl_date = None,
          rl_release_group = Some \<lparr>rg_id = ''g1'', rg_primary_type = Some ''Album'',
                                     rg_secondary_types = None\<rparr>\<rparr>] = 125
   \<and> scoreRecordingMatch
      \<lparr>rs_id = ''r2'', rs_title = ''Smooth Criminal'', rs_score = Some 100,
        rs_disambiguation = None, rs_artist_credit = None, rs_releases = None\<rparr>
      ''Smooth Criminal'' ''Michael Jackson'' (Some ''Bad'')
    - scoreRecordingMatch
      \<lparr>rs_id = ''r2'', rs_title = ''Smooth Criminal'', rs_score = Some 100,
        rs_disambiguation = None, rs_artist_credit = None, rs_releases = None\<rparr>
      ''Smooth Criminal'' ''Michael Jackson'' None = - 50
   \<and> spec_albumAdjustment (normalizeForComparison ''Bad'') [] = - 100"
  by code_simp

lemma scoreRecordingMatch_album:
  assumes "truthy albumName"
  shows "scoreRecordingMatch recording trackName artistName albumName
         = scoreRecordingMatch recording trackName artistName None
           + fold (\<lambda>release best. max best (releaseScore (normalizeForComparison (the albumName)) release))
                  (orEmpty (rs_releases recording)) (- 50)"
  using assms by (simp add: scoreRecordingMatch_def Let_def)

lemma releaseScore_sum:
  "releaseScore normalizedAlbum release
     = (if normalizeForComparison (rl_title release) = normalizedAlbum then 80
        else if includesStr (normalizeForComparison (rl_title release)) normalizedAlbum
                \<or> includesStr normalizedAlbum (normalizeForComparison (rl_title release))
        then 40 else 0)
       + (if rl_status release = Some ''Official'' then 10 else 0)
       + (if isAlternateRelease release then - 60 else 0)
       + (if primaryType release = Some ''Album'' then 15 else 0)"
  by (simp add: releaseScore_def Let_def)

text \<open>
  Claim C4 (amended): when an album name is given, the candidate's score is its score
  without the album plus the largest of -50 and the sub-scores of its releases
  (so -50 when it has no release, and never less than -50); a release's sub-score is
  +80 for an exact normalised title match or else +40 for a substring match either
  way, +10 for status Official, -60 for a compilation, live, remix or soundtrack
  release, and +15 for primary type Album. There is no edition penalty and no EP
  bonus in this score.
\<close>

theorem C4_album_adjustment_as_coded:
  assumes "truthy albumName"
  shows "scoreRecordingMatch recording trackName artistName albumName
         = scoreRecordingMatch recording trackName artistName None
           + Max (insert (- 50)
                (releaseScore (normalizeForComparison (the albumName))
                   ` set (orEmpty (rs_releases recording))))
       \<and> releaseScore normalizedAlbum release
         = (if normalizeForComparison (rl_title release) = normalizedAlbum then 80
            else if includesStr (normalizeForComparison (rl_title release)) normalizedAlbum
                    \<or> includesStr normalizedAlbum (normalizeForComparison (rl_title release))
            then 40 else 0)
           + (if rl_status release = Some ''Official'' then 10 else 0)
           + (if isAlternateRelease release then - 60 else 0)
           + (if primaryType release = Some ''Album'' then 15 else 0)"
  using scoreRecordingMatch_album [OF assms] releaseScore_sum
  by (simp add: fold_max_Max)

theorem C4_album_adjustment_as_coded_witness:
  "truthy (Some ''Bad'')
   \<and> scoreRecordingMatch
      \<lparr>rs_id = ''r1'', rs_title = ''Smooth Criminal'', rs_score = Some 100,
        rs_disambiguation = None, rs_artist_credit = None,
        rs_releases = Some [\<lparr>rl_id = ''b1'', rl_title = ''Bad'', rl_status = Some ''Official'',
          rl_date = None,
          rl_release_group = Some \<lparr>rg_id = ''g1'', rg_primary_type = Some ''Album'',
                                     rg_secondary_types = None\<rparr>\<rparr>]\<rparr>
      ''Smooth Criminal'' ''Michael Jackson'' (Some ''Bad'')
     = scoreRecordingMatch
      \<lparr>rs_id = ''r1'', rs_title = ''Smooth Criminal'', rs_score = Some 100,
        rs_disambiguation = None, rs_artist_credit = None,
        rs_releases = Some [\<lparr>rl_id = ''b1'', rl_title = ''Bad'', rl_status = Some ''Official'',
          rl_date = None,
          rl_release_group = Some \<lparr>rg_id = ''g1'', rg_primary_type = Some ''Album'',
                                     rg_secondary_types = None\<rparr>\<rparr>]\<rparr>
      ''Smooth Criminal'' ''Michael Jackson'' None
      + Max {- 50, 105}
   \<and> releaseScore ''bad''
        \<lparr>rl_id = ''b1'', rl_title = ''Bad'', rl_status = Some ''Official'',
          rl_date = None,
          rl_release_group = Some \<lparr>rg_id = ''g1'', rg_primary_type = Some ''Album'',
                                     rg_secondary_types = None\<rparr>\<rparr> = 80 + 10 + 0 + 15"
proof -
  have n: "normalizeForComparison ''Bad'' = ''bad''"
    by code_simp
  have a: "\<not> isAlternateRelease
        \<lparr>rl_id = ''b1'', rl_title = ''Bad'', rl_status = Some ''Official'',
          rl_date = None,
          rl_release_group = Some \<lparr>rg_id = ''g1'', rg_primary_type = Some ''Album'',
                                     rg_secondary_types = None\<rparr>\<rparr>"
    by code_simp
  have t: "truthy (Some ''Bad'')"
    by simp
  from C4_album_adjustment_as_coded [OF t,
      of "\<lparr>rs_id = ''r1'', rs_title = ''Smooth Criminal'', rs_score = Some 100,
        rs_disambiguation = None, rs_artist_credit = None,
        rs_releases = Some [\<lparr>rl_id = ''b1'', rl_title = ''Bad'', rl_status = Some ''Official'',
          rl_date = None,
          rl_release_group = Some \<lparr>rg_id = ''g1'', rg_primary_type = Some ''Album'',
                                     rg_secondary_types = None\<rparr>\<rparr>]\<rparr>"
      "''Smooth Criminal''" "''Michael Jackson''" "''bad''"
      "\<lparr>rl_id = ''b1'', rl_title = ''Bad'', rl_status = Some ''Official'',
          rl_date = None,
          rl_release_group = Some \<lparr>rg_id = ''g1'', rg_primary_type = Some ''Album'',
                                     rg_secondary_types = None\<rparr>\<rparr>"]
  show ?thesis
    by (simp add: n a primaryType_def)
qed

subsection \<open>The track cache\<close>























subsection \<open>Recording search\<close>




subsection \<open>Discogs credits\<close>

lemma fold_pushCredit:
  "fold (pushCredit trackId) artists (es, rs, seen) = (es', rs', seen') \<Longrightarrow>
   seen = e_id ` set es \<Longrightarrow>
   rs' = rs @ map (creditRelationship trackId) artists
   \<and> seen' = e_id ` set es'
   \<and> e_id ` set es' = e_id ` set es \<union> discogsArtistId ` set artists"
proof (induction artists arbitrary: es rs seen)
  case Nil
  then show ?case by auto
next
  case (Cons a artists)
  obtain es1 rs1 seen1 where step: "pushCredit trackId a (es, rs, seen) = (es1, rs1, seen1)"
    by (cases "pushCredit trackId a (es, rs, seen)")
  with Cons.prems(2) have rs1: "rs1 = rs @ [creditRelationship trackId a]"
    and seen1: "seen1 = e_id ` set es1"
    and ids1: "e_id ` set es1 = insert (discogsArtistId a) (e_id ` set es)"
    by (auto simp: pushCredit_def Let_def split: if_splits)
  from Cons.prems(1) step have "fold (pushCredit trackId) artists (es1, rs1, seen1) = (es', rs', seen')"
    by simp
  from Cons.IH [OF this seen1] rs1 ids1 show ?case
    by auto
qed

lemma fold_releaseCredit:
  "fold (releaseCredit trackId mt) artists state
   = fold (pushCredit trackId) (filter (\<lambda>a. \<not> skipsCredit mt a) artists) state"
  by (induction artists arbitrary: state) (simp_all add: releaseCredit_def)

lemma track_loop_fold:
  "(case mt of
      None \<Rightarrow> init
    | Some t \<Rightarrow> (case dt_extraartists t of
                   None \<Rightarrow> init
                 | Some artists \<Rightarrow> fold (pushCredit tid) artists init))
   = fold (pushCredit tid) (case mt of None \<Rightarrow> [] | Some t \<Rightarrow> orEmpty (dt_extraartists t)) init"
  by (simp split: option.splits)

lemma release_loop_fold:
  "(case dr_extraartists release of
      None \<Rightarrow> state
    | Some artists \<Rightarrow> fold (releaseCredit tid mt) artists state)
   = fold (pushCredit tid) (filter (\<lambda>a. \<not> skipsCredit mt a) (orEmpty (dr_extraartists release))) state"
  by (simp add: fold_releaseCredit split: option.splits)

lemma getTrackCredits_included:
  "dc_relationships (getTrackCredits True (Some release) trackName existingTrackId)
     = map (creditRelationship (if truthy existingTrackId then the existingTrackId
                                else ''track-discogs-'' @ string_of_nat (dr_id release)))
           (includedCredits release trackName)
   \<and> e_id ` set (dc_entities (getTrackCredits True (Some release) trackName existingTrackId))
     = discogsArtistId ` set (includedCredits release trackName)"
proof -
  define tid where "tid = (if truthy existingTrackId then the existingTrackId
                           else ''track-discogs-'' @ string_of_nat (dr_id release))"
  define mt where "mt = findMatchingTrack trackName (dr_tracklist release)"
  define tl where "tl = (case mt of None \<Rightarrow> [] | Some t \<Rightarrow> orEmpty (dt_extraartists t))"
  define rl where "rl = filter (\<lambda>a. \<not> skipsCredit mt a) (orEmpty (dr_extraartists release))"
  define s1 where "s1 = fold (pushCredit tid) tl ([], [], {})"
  define s2 where "s2 = fold (pushCredit tid) rl s1"
  have res: "getTrackCredits True (Some release) trackName existingTrackId
               = \<lparr>dc_entities = fst s2, dc_relationships = fst (snd s2)\<rparr>"
    by (simp only: getTrackCredits_def Let_def track_loop_fold release_loop_fold
          s2_def s1_def rl_def tl_def tid_def mt_def) simp
  obtain es1 rs1 seen1 where e1: "fold (pushCredit tid) tl ([], [], {}) = (es1, rs1, seen1)"
    by (cases "fold (pushCredit tid) tl ([], [], {})")
  obtain es2 rs2 seen2 where e2: "fold (pushCredit tid) rl (es1, rs1, seen1) = (es2, rs2, seen2)"
    by (cases "fold (pushCredit tid) rl (es1, rs1, seen1)")
  from fold_pushCredit [OF e1] have a: "rs1 = map (creditRelationship tid) tl"
    and b: "seen1 = e_id ` set es1" and c: "e_id ` set es1 = discogsArtistId ` set tl"
    by auto
  from fold_pushCredit [OF e2 b] a c
  have "rs2 = map (creditRelationship tid) (tl @ rl)"
    and "e_id ` set es2 = discogsArtistId ` set (tl @ rl)"
    by auto
  moreover have "s2 = (es2, rs2, seen2)"
    by (simp add: s2_def s1_def e1 e2)
  moreover have "includedCredits release trackName = tl @ rl"
    by (simp add: includedCredits_def Let_def tl_def rl_def mt_def)
  ultimately show ?thesis
    unfolding res tid_def [symmetric] by simp
qed

text \<open>
  Claim C9 (as stated): a credit scoped to track positions is included only if the
  current track's position is among them. The release has the current track at
  position 5 and one release-level credit with \<open>tracks: "2,"\<close>; the listed pieces are
  "2" and the empty string, 5 is not among them, and the credit is included. In the
  second release no track matches the current track, and the credit scoped to "2" is
  included as well.
\<close>

theorem C9_scoped_credit_counterexample:
  "''5'' \<notin> set (trackPositions ''2,'')
   \<and> getTrackCredits True
       (Some \<lparr>dr_id = 77,
              dr_tracklist = [\<lparr>dt_position = ''5'', dt_title = ''Song'', dt_extraartists = None\<rparr>],
              dr_extraartists = Some [\<lparr>da_id = 10, da_name = ''Bob'', da_role = Some ''Mixed By'',
                                        da_tracks = Some ''2,''\<rparr>]\<rparr>)
       ''Song'' (Some ''track-x'')
     = \<lparr>dc_entities = [\<lparr>e_id = ''artist-discogs-10'', e_mbid = None, e_name = ''Bob'', e_type = Artist\<rparr>],
        dc_relationships = [\<lparr>r_id = ''rel-discogs-track-x-artist-discogs-10-engineer'',
                             r_source = ''track-x'', r_target = ''artist-discogs-10'',
                             r_role = ''engineer''\<rparr>]\<rparr>
   \<and> getTrackCredits True
       (Some \<lparr>dr_id = 77,
              dr_tracklist = [\<lparr>dt_position = ''5'', dt_title = ''Other'', dt_extraartists = None\<rparr>],
              dr_extraartists = Some [\<lparr>da_id = 10, da_name = ''Bob'', da_role = Some ''Mixed By'',
                                        da_tracks = Some ''2''\<rparr>]\<rparr>)
       ''Song'' (Some ''track-x'')
     = \<lparr>dc_entities = [\<lparr>e_id = ''artist-discogs-10'', e_mbid = None, e_name = ''Bob'', e_type = Artist\<rparr>],
        dc_relationships = [\<lparr>r_id = ''rel-discogs-track-x-artist-discogs-10-engineer'',
                             r_source = ''track-x'', r_target = ''artist-discogs-10'',
                             r_role = ''engineer''\<rparr>]\<rparr>"
  by code_simp

text \<open>
  Claim C9 (amended): the relationships and entities that \<open>getTrackCredits\<close> returns
  are those of the matching track's own credits followed by the release-level credits
  that are not skipped. A release-level credit is skipped exactly when it has a
  non-empty \<open>tracks\<close> string, the release's tracklist has a track matching the current
  track, and neither that track's position nor the empty string is among the trimmed
  comma-separated pieces of \<open>tracks\<close>. So an unscoped credit applies to every track; a
  scoped credit is also kept when no track of the release matches or when a piece of
  its list is empty; and a credit scoped to "2" is skipped for the matching track at
  position "5".
\<close>

theorem C9_release_credits_filtered_by_position:
  "dc_relationships (getTrackCredits True (Some release) trackName existingTrackId)
     = map (creditRelationship (if truthy existingTrackId then the existingTrackId
                                else ''track-discogs-'' @ string_of_nat (dr_id release)))
           (includedCredits release trackName)
   \<and> e_id ` set (dc_entities (getTrackCredits True (Some release) trackName existingTrackId))
     = discogsArtistId ` set (includedCredits release trackName)
   \<and> includedCredits release trackName
     = (case findMatchingTrack trackName (dr_tracklist release) of
          None \<Rightarrow> [] | Some t \<Rightarrow> orEmpty (dt_extraartists t))
       @ filter (\<lambda>a. \<not> skipsCredit (findMatchingTrack trackName (dr_tracklist release)) a)
           (orEmpty (dr_extraartists release))
   \<and> (skipsCredit matchingTrack artist \<longleftrightarrow>
        truthy (da_tracks artist) \<and> matchingTrack \<noteq> None
        \<and> dt_position (the matchingTrack) \<notin> set (trackPositions (the (da_tracks artist)))
        \<and> [] \<notin> set (trackPositions (the (da_tracks artist))))
   \<and> (da_tracks artist = Some ''2'' \<and> matchingTrack = Some t \<and> dt_position t = ''5''
        \<longrightarrow> skipsCredit matchingTrack artist)"
proof -
  have p: "trackPositions ''2'' = [''2'']"
    by code_simp
  have "da_tracks artist = Some ''2'' \<and> matchingTrack = Some t \<and> dt_position t = ''5''
        \<longrightarrow> skipsCredit matchingTrack artist"
    by (simp add: skipsCredit_def p)
  moreover have "skipsCredit matchingTrack artist \<longleftrightarrow>
        truthy (da_tracks artist) \<and> matchingTrack \<noteq> None
        \<and> dt_position (the matchingTrack) \<notin> set (trackPositions (the (da_tracks artist)))
        \<and> [] \<notin> set (trackPositions (the (da_tracks artist)))"
    by (simp add: skipsCredit_def)
  moreover have "includedCredits release trackName
     = (case findMatchingTrack trackName (dr_tracklist release) of
          None \<Rightarrow> [] | Some t \<Rightarrow> orEmpty (dt_extraartists t))
       @ filter (\<lambda>a. \<not> skipsCredit (findMatchingTrack trackName (dr_tracklist release)) a)
           (orEmpty (dr_extraartists release))"
    by (simp add: includedCredits_def Let_def)
  ultimately show ?thesis
    using getTrackCredits_included [of release trackName existingTrackId] by blast
qed

text \<open>
  The scenario: the current track is at position 5; the credit scoped to "2" is left
  out, the unscoped credit is kept.
\<close>

theorem C9_release_credits_filtered_by_position_witness:
  "da_tracks \<lparr>da_id = 9, da_name = ''Ann (2)'', da_role = Some ''Producer'', da_tracks = Some ''2''\<rparr>
     = Some ''2''
   \<and> dt_position \<lparr>dt_position = ''5'', dt_title = ''Song'', dt_extraartists = None\<rparr> = ''5''
   \<and> skipsCredit (Some \<lparr>dt_position = ''5'', dt_title = ''Song'', dt_extraartists = None\<rparr>)
        \<lparr>da_id = 9, da_name = ''Ann (2)'', da_role = Some ''Producer'', da_tracks = Some ''2''\<rparr>
   \<and> includedCredits
        \<lparr>dr_id = 77,
         dr_tracklist = [\<lparr>dt_position = ''5'', dt_title = ''Song'', dt_extraartists = None\<rparr>],
         dr_extraartists = Some
           [\<lparr>da_id = 9, da_name = ''Ann (2)'', da_role = Some ''Producer'', da_tracks = Some ''2''\<rparr>,
            \<lparr>da_id = 11, da_name = ''Cy'', da_role = None, da_tracks = None\<rparr>]\<rparr>
        ''Song''
     = [\<lparr>da_id = 11, da_name = ''Cy'', da_role = None, da_tracks = None\<rparr>]
   \<and> dc_relationships (getTrackCredits True
        (Some \<lparr>dr_id = 77,
           dr_tracklist = [\<lparr>dt_position = ''5'', dt_title = ''Song'', dt_extraartists = None\<rparr>],
           dr_extraartists = Some
             [\<lparr>da_id = 9, da_name = ''Ann (2)'', da_role = Some ''Producer'', da_tracks = Some ''2''\<rparr>,
              \<lparr>da_id = 11, da_name = ''Cy'', da_role = None, da_tracks = None\<rparr>]\<rparr>)
        ''Song'' (Some ''track-x''))
     = [\<lparr>r_id = ''rel-discogs-track-x-artist-discogs-11-featured'',
          r_source = ''track-x'', r_target = ''artist-discogs-11'', r_role = ''featured''\<rparr>]"
proof -
  note T = C9_release_credits_filtered_by_position
      [of "\<lparr>dr_id = 77,
           dr_tracklist = [\<lparr>dt_position = ''5'', dt_title = ''Song'', dt_extraartists = None\<rparr>],
           dr_extraartists = Some
             [\<lparr>da_id = 9, da_name = ''Ann (2)'', da_role = Some ''Producer'', da_tracks = Some ''2''\<rparr>,
              \<lparr>da_id = 11, da_name = ''Cy'', da_role = None, da_tracks = None\<rparr>]\<rparr>"
          "''Song''" "Some ''track-x''"
          "Some \<lparr>dt_position = ''5'', dt_title = ''Song'', dt_extraartists = None\<rparr>"
          "\<lparr>da_id = 9, da_name = ''Ann (2)'', da_role = Some ''Producer'', da_tracks = Some ''2''\<rparr>"
          "\<lparr>dt_position = ''5'', dt_title = ''Song'', dt_extraartists = None\<rparr>"]
  have skip: "skipsCredit (Some \<lparr>dt_position = ''5'', dt_title = ''Song'', dt_extraartists = None\<rparr>)
        \<lparr>da_id = 9, da_name = ''Ann (2)'', da_role = Some ''Producer'', da_tracks = Some ''2''\<rparr>"
    using T [THEN conjunct2, THEN conjunct2, THEN conjunct2, THEN conjunct2] by simp
  have inc: "includedCredits
        \<lparr>dr_id = 77,
         dr_tracklist = [\<lparr>dt_position = ''5'', dt_title = ''Song'', dt_extraartists = None\<rparr>],
         dr_extraartists = Some
           [\<lparr>da_id = 9, da_name = ''Ann (2)'', da_role = Some ''Producer'', da_tracks = Some ''2''\<rparr>,
            \<lparr>da_id = 11, da_name = ''Cy'', da_role = None, da_tracks = None\<rparr>]\<rparr>
        ''Song''
     = [\<lparr>da_id = 11, da_name = ''Cy'', da_role = None, da_tracks = None\<rparr>]"
    by code_simp
  have rel: "creditRelationship ''track-x'' \<lparr>da_id = 11, da_name = ''Cy'', da_role = None, da_tracks = None\<rparr>
     = \<lparr>r_id = ''rel-discogs-track-x-artist-discogs-11-featured'',
          r_source = ''track-x'', r_target = ''artist-discogs-11'', r_role = ''featured''\<rparr>"
    by code_simp
  have rels: "dc_relationships (getTrackCredits True
        (Some \<lparr>dr_id = 77,
           dr_tracklist = [\<lparr>dt_position = ''5'', dt_title = ''Song'', dt_extraartists = None\<rparr>],
           dr_extraartists = Some
             [\<lparr>da_id = 9, da_name = ''Ann (2)'', da_role = Some ''Producer'', da_tracks = Some ''2''\<rparr>,
              \<lparr>da_id = 11, da_name = ''Cy'', da_role = None, da_tracks = None\<rparr>]\<rparr>)
        ''Song'' (Some ''track-x''))
     = [\<lparr>r_id = ''rel-discogs-track-x-artist-discogs-11-featured'',
          r_source = ''track-x'', r_target = ''artist-discogs-11'', r_role = ''featured''\<rparr>]"
    unfolding T [THEN conjunct1] inc by (simp add: rel)
  from skip inc rels show ?thesis by simp
qed

subsection \<open>The merge of the Discogs credits\<close>

lemma mergeEntityStep_known:
  "aliasInGraph al entityIds (e_name entity)
   \<Longrightarrow> mergeEntityStep al entity (entities, entityIds, existingNames) = (entities, entityIds, existingNames)"
  by (simp add: mergeEntityStep_def aliasInGraph_def Let_def)

lemma mergeEntityStep_named:
  "normalizeArtistName (e_name entity) \<in> existingNames
   \<Longrightarrow> mergeEntityStep al entity (entities, entityIds, existingNames) = (entities, entityIds, existingNames)"
  by (simp add: mergeEntityStep_def Let_def)

lemma mergeEntityStep_new:
  "\<not> aliasInGraph al entityIds (e_name entity) \<Longrightarrow> normalizeArtistName (e_name entity) \<notin> existingNames
   \<Longrightarrow> mergeEntityStep al entity (entities, entityIds, existingNames)
       = (entities @ [entity], insert (e_id entity) entityIds,
          insert (normalizeArtistName (e_name entity)) existingNames)"
  by (auto simp add: mergeEntityStep_def aliasInGraph_def Let_def)

lemma aliasInGraph_mono:
  "aliasInGraph al I name \<Longrightarrow> I \<subseteq> I' \<Longrightarrow> aliasInGraph al I' name"
  by (auto simp add: aliasInGraph_def)

lemma fold_mergeEntityStep:
  "fold (mergeEntityStep al) es (E, I, N) = (E', I', N')
   \<Longrightarrow> I \<subseteq> I' \<and> N \<subseteq> N'
       \<and> (\<exists>added. E' = E @ added \<and> set added \<subseteq> set es
             \<and> (\<forall>x\<in>set added. \<not> aliasInGraph al I (e_name x)))
       \<and> (\<forall>x\<in>set es. aliasInGraph al I' (e_name x) \<or> normalizeArtistName (e_name x) \<in> N')
       \<and> (N = set (map (\<lambda>e. normalizeArtistName (e_name e)) E)
            \<longrightarrow> N' = set (map (\<lambda>e. normalizeArtistName (e_name e)) E'))"
proof (induction es arbitrary: E I N)
  case Nil
  then show ?case by simp
next
  case (Cons e es)
  obtain E1 I1 N1 where step: "mergeEntityStep al e (E, I, N) = (E1, I1, N1)"
    by (cases "mergeEntityStep al e (E, I, N)") auto
  from Cons.prems step have rest: "fold (mergeEntityStep al) es (E1, I1, N1) = (E', I', N')"
    by simp
  note IH = Cons.IH[OF rest]
  from IH obtain added where added: "E' = E1 @ added" "set added \<subseteq> set es"
    "\<forall>x\<in>set added. \<not> aliasInGraph al I1 (e_name x)" by blast
  consider (known) "aliasInGraph al I (e_name e)"
    | (named) "\<not> aliasInGraph al I (e_name e)" "normalizeArtistName (e_name e) \<in> N"
    | (new) "\<not> aliasInGraph al I (e_name e)" "normalizeArtistName (e_name e) \<notin> N"
    by blast
  then show ?case
  proof cases
    case known
    with step have eq: "E1 = E" "I1 = I" "N1 = N" by (simp_all add: mergeEntityStep_known)
    have "aliasInGraph al I' (e_name e)"
      using known IH eq aliasInGraph_mono by blast
    with IH added eq show ?thesis by auto
  next
    case named
    with step have eq: "E1 = E" "I1 = I" "N1 = N" by (simp_all add: mergeEntityStep_named)
    have "normalizeArtistName (e_name e) \<in> N'" using named IH eq by blast
    with IH added eq show ?thesis by auto
  next
    case new
    with step have eq: "E1 = E @ [e]" "I1 = insert (e_id e) I"
      "N1 = insert (normalizeArtistName (e_name e)) N" by (simp_all add: mergeEntityStep_new)
    have sub: "I \<subseteq> I1" using eq by auto
    have a1: "E' = E @ (e # added)" using added eq by simp
    have a2: "set (e # added) \<subseteq> set (e # es)" using added by auto
    have a3: "\<forall>x\<in>set (e # added). \<not> aliasInGraph al I (e_name x)"
      using added(3) new(1) sub aliasInGraph_mono by auto
    have a4: "normalizeArtistName (e_name e) \<in> N'" using IH eq by auto
    have a5: "N = set (map (\<lambda>e. normalizeArtistName (e_name e)) E)
            \<longrightarrow> N' = set (map (\<lambda>e. normalizeArtistName (e_name e)) E')"
      using IH eq by auto
    from a1 a2 a3 have ex: "\<exists>added. E' = E @ added \<and> set added \<subseteq> set (e # es)
             \<and> (\<forall>x\<in>set added. \<not> aliasInGraph al I (e_name x))" by blast
    from IH eq have s1: "I \<subseteq> I'" "N \<subseteq> N'" by auto
    from IH a4 have all: "\<forall>x\<in>set (e # es). aliasInGraph al I' (e_name x) \<or> normalizeArtistName (e_name x) \<in> N'"
      by auto
    from s1 ex all a5 show ?thesis by blast
  qed
qed

lemma fold_mergeEntityStep_absorbed:
  "\<forall>x\<in>set es. aliasInGraph al I (e_name x) \<or> normalizeArtistName (e_name x) \<in> N
   \<Longrightarrow> fold (mergeEntityStep al) es (E, I, N) = (E, I, N)"
  by (induction es) (auto simp add: mergeEntityStep_known mergeEntityStep_named)

lemma isDuplicate_append:
  "isDuplicate R r \<Longrightarrow> isDuplicate (R @ R') r"
  by (auto simp add: isDuplicate_def list_ex_iff)

lemma isDuplicate_self:
  "isDuplicate (R @ [r]) r"
  by (simp add: isDuplicate_def list_ex_iff)

lemma fold_mergeRelationshipStep:
  "\<exists>added. fold (mergeRelationshipStep al trackId D E I) rels R = R @ added
      \<and> (\<forall>x\<in>set added. \<exists>rel\<in>set rels. x = remapRelationship al trackId D E I rel)
      \<and> (\<forall>rel\<in>set rels. isDuplicate (R @ added) (remapRelationship al trackId D E I rel))"
proof (induction rels arbitrary: R)
  case Nil
  show ?case by simp
next
  case (Cons rel rels)
  let ?r = "remapRelationship al trackId D E I rel"
  let ?R1 = "mergeRelationshipStep al trackId D E I rel R"
  obtain a1 where a1: "?R1 = R @ a1" "set a1 \<subseteq> {?r}" "isDuplicate ?R1 ?r"
    by (cases "isDuplicate R ?r") (auto simp add: mergeRelationshipStep_def Let_def isDuplicate_self)
  from Cons.IH[of ?R1] obtain added where added:
    "fold (mergeRelationshipStep al trackId D E I) rels ?R1 = ?R1 @ added"
    "\<forall>x\<in>set added. \<exists>rel\<in>set rels. x = remapRelationship al trackId D E I rel"
    "\<forall>rel\<in>set rels. isDuplicate (?R1 @ added) (remapRelationship al trackId D E I rel)"
    by blast
  have e1: "fold (mergeRelationshipStep al trackId D E I) (rel # rels) R = R @ (a1 @ added)"
    using added(1) a1(1) by simp
  have e2: "\<forall>x\<in>set (a1 @ added). \<exists>rel'\<in>set (rel # rels). x = remapRelationship al trackId D E I rel'"
    using added(2) a1(2) by auto
  have "isDuplicate (?R1 @ added) ?r" using a1(3) by (rule isDuplicate_append)
  with added(3) have e3: "\<forall>rel'\<in>set (rel # rels). isDuplicate (R @ (a1 @ added)) (remapRelationship al trackId D E I rel')"
    using a1(1) by auto
  from e1 e2 e3 show ?case by blast
qed

lemma fold_mergeRelationshipStep_absorbed:
  "\<forall>rel\<in>set rels. isDuplicate R (remapRelationship al trackId D E I rel)
   \<Longrightarrow> fold (mergeRelationshipStep al trackId D E I) rels R = R"
  by (induction rels) (auto simp add: mergeRelationshipStep_def Let_def)

lemma mergeDiscogs_absorbs:
  "mergeDiscogs al trackId credits (mergeDiscogs al trackId credits st) = mergeDiscogs al trackId credits st"
proof (cases "dc_entities credits = []")
  case True
  then show ?thesis by (simp add: mergeDiscogs_def)
next
  case False
  let ?N = "\<lambda>E. set (map (\<lambda>e. normalizeArtistName (e_name e)) E)"
  obtain E' I' N' where ent: "fold (mergeEntityStep al) (dc_entities credits)
      (bs_entities st, bs_entityIds st, ?N (bs_entities st)) = (E', I', N')"
    by (cases "fold (mergeEntityStep al) (dc_entities credits)
      (bs_entities st, bs_entityIds st, ?N (bs_entities st))") auto
  let ?R' = "fold (mergeRelationshipStep al trackId (dc_entities credits) E' I')
                       (dc_relationships credits) (bs_relationships st)"
  have m1: "mergeDiscogs al trackId credits st
        = st\<lparr>bs_entities := E', bs_entityIds := I', bs_relationships := ?R'\<rparr>"
    using False ent by (simp add: mergeDiscogs_def)
  from fold_mergeEntityStep[OF ent] have N': "N' = ?N E'"
    and abs: "\<forall>x\<in>set (dc_entities credits). aliasInGraph al I' (e_name x) \<or> normalizeArtistName (e_name x) \<in> N'"
    by blast+
  have ent2: "fold (mergeEntityStep al) (dc_entities credits) (E', I', ?N E') = (E', I', ?N E')"
    using abs N' fold_mergeEntityStep_absorbed by blast
  from fold_mergeRelationshipStep[of al trackId "dc_entities credits" E' I' "dc_relationships credits" "bs_relationships st"]
  have dup: "\<forall>rel\<in>set (dc_relationships credits). isDuplicate ?R' (remapRelationship al trackId (dc_entities credits) E' I' rel)"
    by force
  have rel2: "fold (mergeRelationshipStep al trackId (dc_entities credits) E' I') (dc_relationships credits) ?R' = ?R'"
    using dup by (rule fold_mergeRelationshipStep_absorbed)
  show ?thesis
    unfolding m1 using False ent2 rel2 by (simp add: mergeDiscogs_def)
qed

subsection \<open>The identity of a credited artist\<close>



subsection \<open>The ids of the relationships\<close>

lemma pushTrackRel_rels:
  "bs_relationships (pushTrackRel trackId targetId role st)
     = bs_relationships st @ [\<lparr>r_id = ''rel-'' @ trackId @ ''-'' @ targetId @ ''-'' @ role,
                               r_source = trackId, r_target = targetId, r_role = role\<rparr>]"
  by (simp add: pushTrackRel_def trackRelId_def)

lemma pushArtist_rels:
  "bs_relationships (pushArtist artist st) = bs_relationships st"
  by (simp add: pushArtist_def)

lemma artistCreditStep_ids:
  "r \<in> set (bs_relationships (fst (artistCreditStep trackId searched credit (st, flag))))
   \<Longrightarrow> r \<in> set (bs_relationships st)
       \<or> r_id r = ''rel-'' @ r_source r @ ''-'' @ r_target r @ ''-'' @ r_role r"
  by (auto simp add: artistCreditStep_def Let_def pushTrackRel_rels pushArtist_rels
           split: if_splits option.splits)

lemma personnelStep_ids:
  "r \<in> set (bs_relationships (personnelStep mapRole al trackId rel st))
   \<Longrightarrow> r \<in> set (bs_relationships st)
       \<or> r_id r = ''rel-'' @ r_source r @ ''-'' @ r_target r @ ''-'' @ r_role r"
  by (auto simp add: personnelStep_def Let_def pushTrackRel_rels pushArtist_rels
           split: if_splits option.splits)

lemma workRelationStep_ids:
  "r \<in> set (bs_relationships (workRelationStep al trackId rel st))
   \<Longrightarrow> r \<in> set (bs_relationships st)
       \<or> r_id r = ''rel-'' @ r_source r @ ''-'' @ r_target r @ ''-'' @ r_role r"
  by (auto simp add: workRelationStep_def Let_def pushTrackRel_rels pushArtist_rels
           split: if_splits option.splits)

lemma albumStep_ids:
  "r \<in> set (bs_relationships (albumStep trackId targetRelease st))
   \<Longrightarrow> r \<in> set (bs_relationships st)
       \<or> r_id r = ''rel-'' @ r_source r @ ''-'' @ r_target r"
  by (auto simp add: albumStep_def Let_def split: if_splits)

lemma getTrackCredits_ids:
  "r \<in> set (dc_relationships (getTrackCredits configured bestRelease trackName existingTrackId))
   \<Longrightarrow> r_id r = ''rel-discogs-'' @ r_source r @ ''-'' @ r_target r @ ''-'' @ r_role r"
proof (cases "configured \<and> bestRelease \<noteq> None")
  case False
  assume "r \<in> set (dc_relationships (getTrackCredits configured bestRelease trackName existingTrackId))"
  with False show ?thesis by (cases configured; cases bestRelease) (auto simp add: getTrackCredits_def)
next
  case True
  assume r: "r \<in> set (dc_relationships (getTrackCredits configured bestRelease trackName existingTrackId))"
  from True obtain release where "configured" "bestRelease = Some release" by auto
  with r getTrackCredits_included[of release trackName existingTrackId]
  show ?thesis by (auto simp add: creditRelationship_def)
qed

lemma remapRelationship_ids:
  "r_source (remapRelationship al trackId D E I rel) = trackId
   \<and> r_role (remapRelationship al trackId D E I rel) = r_role rel
   \<and> (r_target (remapRelationship al trackId D E I rel) = r_target rel
        \<and> r_id (remapRelationship al trackId D E I rel) = r_id rel
      \<or> r_id (remapRelationship al trackId D E I rel)
          = ''rel-'' @ trackId @ ''-'' @ r_target (remapRelationship al trackId D E I rel)
              @ ''-'' @ r_role rel @ ''-discogs'')"
  by (simp add: remapRelationship_def remapTo_def Let_def split: option.splits)

subsection \<open>Aliases, relationship ids and the invariants of the graph\<close>



text \<open>
  Claim C1 says that the id of a relationship is a function of its
  \<open>(source, target, role)\<close> triple. It is not: the id also tells which path created
  the relationship. The same triple, track R to artist C as songwriter, gets the id
  \<open>rel-track-R-artist-C-songwriter\<close> when it comes from a work credit and the id
  \<open>rel-track-R-artist-C-songwriter-discogs\<close> when it comes from a Discogs credit that
  the merge retargets to the artist.
\<close>

theorem C1_same_triple_two_ids_counterexample:
  "last (bs_relationships (workRelationStep example_aliases ''track-R'' example_work_credit example_graph))
     = \<lparr>r_id = ''rel-track-R-artist-C-songwriter'', r_source = ''track-R'',
        r_target = ''artist-C'', r_role = ''songwriter''\<rparr>
   \<and> last (bs_relationships (mergeDiscogs example_aliases ''track-R'' example_discogs_credits example_graph))
     = \<lparr>r_id = ''rel-track-R-artist-C-songwriter-discogs'', r_source = ''track-R'',
        r_target = ''artist-C'', r_role = ''songwriter''\<rparr>"
proof -
  have "last (bs_relationships (workRelationStep example_aliases ''track-R'' example_work_credit example_graph))
     = \<lparr>r_id = ''rel-track-R-artist-C-songwriter'', r_source = ''track-R'',
        r_target = ''artist-C'', r_role = ''songwriter''\<rparr>"
    by code_simp
  moreover have "last (bs_relationships (mergeDiscogs example_aliases ''track-R'' example_discogs_credits example_graph))
     = \<lparr>r_id = ''rel-track-R-artist-C-songwriter-discogs'', r_source = ''track-R'',
        r_target = ''artist-C'', r_role = ''songwriter''\<rparr>"
    by code_simp
  ultimately show ?thesis
    by (rule conjI)
qed

text \<open>
  Claim C1, as the code has it. Merging the same Discogs credits a second time
  changes nothing. Every relationship gets its id from its triple by the template of
  the path that creates it: \<open>rel-<source>-<target>-<role>\<close> for the credits of the
  recording, its personnel and its works, \<open>rel-<source>-<target>\<close> for the
  relationships of the album, \<open>rel-discogs-<source>-<target>-<role>\<close> for a Discogs
  credit, and \<open>rel-<source>-<target>-<role>-discogs\<close> for a Discogs credit that the
  merge retargets; the merge keeps the role and makes the track the source.
\<close>

theorem C1_ids_follow_creating_path_merge_idempotent:
  "mergeDiscogs al trackId credits (mergeDiscogs al trackId credits st)
     = mergeDiscogs al trackId credits st
   \<and> (\<forall>r\<in>set (bs_relationships (fst (artistCreditStep trackId searched credit (st, flag)))).
         r \<in> set (bs_relationships st)
         \<or> r_id r = ''rel-'' @ r_source r @ ''-'' @ r_target r @ ''-'' @ r_role r)
   \<and> (\<forall>r\<in>set (bs_relationships (personnelStep mapRole al trackId rel st)).
         r \<in> set (bs_relationships st)
         \<or> r_id r = ''rel-'' @ r_source r @ ''-'' @ r_target r @ ''-'' @ r_role r)
   \<and> (\<forall>r\<in>set (bs_relationships (workRelationStep al trackId rel st)).
         r \<in> set (bs_relationships st)
         \<or> r_id r = ''rel-'' @ r_source r @ ''-'' @ r_target r @ ''-'' @ r_role r)
   \<and> (\<forall>r\<in>set (bs_relationships (albumStep trackId targetRelease st)).
         r \<in> set (bs_relationships st)
         \<or> r_id r = ''rel-'' @ r_source r @ ''-'' @ r_target r)
   \<and> (\<forall>r\<in>set (dc_relationships (getTrackCredits configured bestRelease trackName existingTrackId)).
         r_id r = ''rel-discogs-'' @ r_source r @ ''-'' @ r_target r @ ''-'' @ r_role r)
   \<and> r_source (remapRelationship al trackId discogsEntities entities entityIds discogsRel) = trackId
   \<and> r_role (remapRelationship al trackId discogsEntities entities entityIds discogsRel)
       = r_role discogsRel
   \<and> (r_target (remapRelationship al trackId discogsEntities entities entityIds discogsRel)
         = r_target discogsRel
       \<and> r_id (remapRelationship al trackId discogsEntities entities entityIds discogsRel)
         = r_id discogsRel
       \<or> r_id (remapRelationship al trackId discogsEntities entities entityIds discogsRel)
         = ''rel-'' @ trackId @ ''-''
           @ r_target (remapRelationship al trackId discogsEntities entities entityIds discogsRel)
           @ ''-'' @ r_role discogsRel @ ''-discogs'')"
proof -
  have "mergeDiscogs al trackId credits (mergeDiscogs al trackId credits st)
     = mergeDiscogs al trackId credits st"
    by (rule mergeDiscogs_absorbs)
  moreover have "\<forall>r\<in>set (bs_relationships (fst (artistCreditStep trackId searched credit (st, flag)))).
         r \<in> set (bs_relationships st)
         \<or> r_id r = ''rel-'' @ r_source r @ ''-'' @ r_target r @ ''-'' @ r_role r"
    using artistCreditStep_ids by blast
  moreover have "\<forall>r\<in>set (bs_relationships (personnelStep mapRole al trackId rel st)).
         r \<in> set (bs_relationships st)
         \<or> r_id r = ''rel-'' @ r_source r @ ''-'' @ r_target r @ ''-'' @ r_role r"
    using personnelStep_ids by blast
  moreover have "\<forall>r\<in>set (bs_relationships (workRelationStep al trackId rel st)).
         r \<in> set (bs_relationships st)
         \<or> r_id r = ''rel-'' @ r_source r @ ''-'' @ r_target r @ ''-'' @ r_role r"
    using workRelationStep_ids by blast
  moreover have "\<forall>r\<in>set (bs_relationships (albumStep trackId targetRelease st)).
         r \<in> set (bs_relationships st)
         \<or> r_id r = ''rel-'' @ r_source r @ ''-'' @ r_target r"
    using albumStep_ids by blast
  moreover have "\<forall>r\<in>set (dc_relationships (getTrackCredits configured bestRelease trackName existingTrackId)).
         r_id r = ''rel-discogs-'' @ r_source r @ ''-'' @ r_target r @ ''-'' @ r_role r"
    using getTrackCredits_ids by blast
  moreover note remapRelationship_ids [of al trackId discogsEntities entities entityIds discogsRel]
  ultimately show ?thesis
    by blast
qed

text \<open>
  On the example: the Discogs credit for "Abel Tesfaye" is merged into the graph of
  the track once, as a relationship to the artist C, and a second merge adds nothing;
  the id of the credit as Discogs delivers it and the id of the work credit follow
  their templates.
\<close>

theorem C1_ids_follow_creating_path_merge_idempotent_witness:
  "mergeDiscogs example_aliases ''track-R'' example_discogs_credits
       (mergeDiscogs example_aliases ''track-R'' example_discogs_credits example_graph)
     = mergeDiscogs example_aliases ''track-R'' example_discogs_credits example_graph
   \<and> map r_id (bs_relationships
        (mergeDiscogs example_aliases ''track-R'' example_discogs_credits
           (mergeDiscogs example_aliases ''track-R'' example_discogs_credits example_graph)))
     = [''rel-track-R-artist-C-primary_artist'', ''rel-track-R-artist-C-songwriter-discogs'']
   \<and> \<lparr>r_id = ''rel-discogs-track-R-artist-discogs-7-songwriter'', r_source = ''track-R'',
       r_target = ''artist-discogs-7'', r_role = ''songwriter''\<rparr>
        \<in> set (dc_relationships (getTrackCredits True (Some example_discogs_release)
                  ''Blinding Lights'' (Some ''track-R'')))
   \<and> \<lparr>r_id = ''rel-track-R-artist-C-songwriter'', r_source = ''track-R'',
       r_target = ''artist-C'', r_role = ''songwriter''\<rparr>
        \<in> set (bs_relationships (workRelationStep example_aliases ''track-R'' example_work_credit example_graph))
   \<and> \<lparr>r_id = ''rel-track-R-artist-C-songwriter'', r_source = ''track-R'',
       r_target = ''artist-C'', r_role = ''songwriter''\<rparr>
        \<notin> set (bs_relationships example_graph)"
proof -
  note T = C1_ids_follow_creating_path_merge_idempotent
      [where al = example_aliases and trackId = "''track-R''" and credits = example_discogs_credits
         and st = example_graph and rel = example_work_credit and configured = True
         and bestRelease = "Some example_discogs_release" and trackName = "''Blinding Lights''"
         and existingTrackId = "Some ''track-R''"]
  have once: "map r_id (bs_relationships
        (mergeDiscogs example_aliases ''track-R'' example_discogs_credits example_graph))
     = [''rel-track-R-artist-C-primary_artist'', ''rel-track-R-artist-C-songwriter-discogs'']"
    by code_simp
  have d: "\<lparr>r_id = ''rel-discogs-track-R-artist-discogs-7-songwriter'', r_source = ''track-R'',
       r_target = ''artist-discogs-7'', r_role = ''songwriter''\<rparr>
        \<in> set (dc_relationships (getTrackCredits True (Some example_discogs_release)
                  ''Blinding Lights'' (Some ''track-R'')))"
    by code_simp
  have w: "\<lparr>r_id = ''rel-track-R-artist-C-songwriter'', r_source = ''track-R'',
       r_target = ''artist-C'', r_role = ''songwriter''\<rparr>
        \<in> set (bs_relationships (workRelationStep example_aliases ''track-R'' example_work_credit example_graph))"
    by code_simp
  have n: "\<lparr>r_id = ''rel-track-R-artist-C-songwriter'', r_source = ''track-R'',
       r_target = ''artist-C'', r_role = ''songwriter''\<rparr>
        \<notin> set (bs_relationships example_graph)"
    by code_simp
  from T [THEN conjunct1] once d w n show ?thesis
    by simp
qed

text \<open>
  Claim C2 fails for a Discogs credit whose name is the title of the track (or of the
  album) and of no artist in the graph. The merge collects the names of \<^emph>\<open>all\<close>
  entities to decide whether the Discogs entity is new (line 1339), so the entity
  "Etta" is not added; but it looks for the entity to retarget the credit to among the
  \<^emph>\<open>artists\<close> only (lines 1381-1383), finds none, and adds the relationship as it
  is. The graph that is returned, whatever the role table and the works are, has a
  relationship to \<open>artist-discogs-7\<close> and no entity of that id. Its entity ids and
  relationship ids are without duplicates.
\<close>

theorem C2_namesake_credit_dangles:
  "map_sum id fst
     (assembleGraph mapRole (\<lambda>mbid. None) workReply True (Some namesake_release) no_aliases
        ''Etta'' ''The Larks'' (Some ''Night Songs'') ''R'' namesake_recording)
     = Inr namesake_graph
   \<and> uniqueEntityIds namesake_graph \<and> uniqueRelationshipIds namesake_graph
   \<and> \<not> hasEntity namesake_graph ''artist-discogs-7''
   \<and> \<not> noDanglingRelationship namesake_graph"
proof -
  have "map_sum id fst
     (assembleGraph mapRole (\<lambda>mbid. None) workReply True (Some namesake_release) no_aliases
        ''Etta'' ''The Larks'' (Some ''Night Songs'') ''R'' namesake_recording)
     = Inr namesake_graph"
    by code_simp
  moreover have "uniqueEntityIds namesake_graph"
    by code_simp
  moreover have "uniqueRelationshipIds namesake_graph"
    by code_simp
  moreover have "\<not> hasEntity namesake_graph ''artist-discogs-7''"
    by code_simp
  moreover have "\<not> noDanglingRelationship namesake_graph"
    by code_simp
  ultimately show ?thesis
    by blast
qed

end
